theory Spec2Isabelle
  imports Main "HOL-Library.Word" "HOL-Library.Monad_Syntax"
begin

unbundle bit_operations_syntax

section \<open>Constants of ip_network.h and async_ip_network.h\<close>

definition IP_MAX_MESSAGE_LENGTH :: nat where
  "IP_MAX_MESSAGE_LENGTH = 512"

definition IP_SERVER :: "8 word" where
  "IP_SERVER = 0x01"

definition IP_CLIENT :: "8 word" where
  "IP_CLIENT = 0x02"

definition IP_TCP :: "8 word" where
  "IP_TCP = 0x10"

definition IP_UDP :: "8 word" where
  "IP_UDP = 0x20"

definition TRANSPORT_MASK :: "8 word" where
  "TRANSPORT_MASK = 0xF0"

definition ROLE_MASK :: "8 word" where
  "ROLE_MASK = 0x0F"

definition SOCKET_ERROR :: int where
  "SOCKET_ERROR = -1"

definition INVALID_SOCKET :: int where
  "INVALID_SOCKET = -1"

definition QUEUE_MAX_ITEMS :: nat where
  "QUEUE_MAX_ITEMS = 10"

text \<open>\<^verbatim>\<open>(unsigned long) IP_CONNECTION_INVALID_ID\<close>, that is \<^verbatim>\<open>(unsigned long) -1\<close>
  on a 64-bit unsigned long.\<close>

definition IP_CONNECTION_INVALID_ID :: nat where
  "IP_CONNECTION_INVALID_ID = 2 ^ 64 - 1"


section \<open>Socket addresses and the address macros\<close>

text \<open>
  \<^verbatim>\<open>IPAddressData\<close> is a \<^verbatim>\<open>struct sockaddr_in6\<close> (a \<^verbatim>\<open>struct sockaddr_in\<close> in
  the legacy build), read through casts to \<^verbatim>\<open>sockaddr\<close>, \<^verbatim>\<open>sockaddr_in\<close> and
  \<^verbatim>\<open>sockaddr_in6\<close>. The record keeps the members the macros read: the family, the
  port (\<^verbatim>\<open>sin_port\<close> and \<^verbatim>\<open>sin6_port\<close> are the same two bytes), the four bytes
  after the port (\<^verbatim>\<open>sin_addr.s_addr\<close>, given as \<^verbatim>\<open>ntohl\<close> reads it) and the
  sixteen bytes of \<^verbatim>\<open>sin6_addr.s6_addr\<close>.
\<close>

datatype sa_family_t = AF_UNSPEC | AF_INET | AF_INET6

record IPAddressData =
  sa_family :: sa_family_t
  sin_port :: "16 word"
  sin_addr :: "32 word"
  sin6_addr :: "8 word list"

definition IS_IPV6_MULTICAST_ADDRESS :: "bool \<Rightarrow> IPAddressData \<Rightarrow> bool" where
  "IS_IPV6_MULTICAST_ADDRESS legacy address =
     (if legacy then False
      else (case sin6_addr address of [] \<Rightarrow> False | b # _ \<Rightarrow> b = 0xFF))"

definition ARE_EQUAL_IPV6_ADDRESSES :: "bool \<Rightarrow> IPAddressData \<Rightarrow> IPAddressData \<Rightarrow> bool" where
  "ARE_EQUAL_IPV6_ADDRESSES legacy address_1 address_2 =
     (if legacy then False
      else (sa_family address_1 = AF_INET6 \<and>
            sin_port address_1 = sin_port address_2 \<and>
            take 16 (sin6_addr address_1) = take 16 (sin6_addr address_2)))"

definition IS_IPV4_MULTICAST_ADDRESS :: "IPAddressData \<Rightarrow> bool" where
  "IS_IPV4_MULTICAST_ADDRESS address = (sin_addr address AND 0xF0000000 = 0xE0000000)"

definition ARE_EQUAL_IPV4_ADDRESSES :: "IPAddressData \<Rightarrow> IPAddressData \<Rightarrow> bool" where
  "ARE_EQUAL_IPV4_ADDRESSES address_1 address_2 =
     (sa_family address_1 = AF_INET \<and> sin_port address_1 = sin_port address_2)"

definition IS_IP_MULTICAST_ADDRESS :: "bool \<Rightarrow> IPAddressData \<Rightarrow> bool" where
  "IS_IP_MULTICAST_ADDRESS legacy address =
     (IS_IPV4_MULTICAST_ADDRESS address \<or> IS_IPV6_MULTICAST_ADDRESS legacy address)"

definition ARE_EQUAL_IP_ADDRESSES :: "bool \<Rightarrow> IPAddressData \<Rightarrow> IPAddressData \<Rightarrow> bool" where
  "ARE_EQUAL_IP_ADDRESSES legacy address_1 address_2 =
     (ARE_EQUAL_IPV4_ADDRESSES address_1 address_2 \<or>
      ARE_EQUAL_IPV6_ADDRESSES legacy address_1 address_2)"

text \<open>What the claims mean by "the two addresses are equal": same family, port and
  address bytes of that family.\<close>

definition same_peer :: "IPAddressData \<Rightarrow> IPAddressData \<Rightarrow> bool" where
  "same_peer a b =
     (sa_family a = sa_family b \<and> sin_port a = sin_port b \<and>
      (case sa_family a of
         AF_INET \<Rightarrow> sin_addr a = sin_addr b
       | AF_INET6 \<Rightarrow> take 16 (sin6_addr a) = take 16 (sin6_addr b)
       | AF_UNSPEC \<Rightarrow> True))"


section \<open>The connection structure and the state of the synchronous layer\<close>

text \<open>The method pointers of \<^verbatim>\<open>struct _IPConnectionData\<close>, one constructor per
  function they are ever set to. \<^verbatim>\<open>ref_ReceiveMessage\<close> and \<^verbatim>\<open>ref_AcceptClient\<close>
  share a union.\<close>

datatype receive_method =
  FN_ReceiveTCPMessage | FN_ReceiveUDPMessage | FN_AcceptTCPClient | FN_AcceptUDPClient

datatype send_method = FN_SendTCPMessage | FN_SendUDPMessage | FN_SendMessageAll

datatype close_method =
  FN_CloseTCPServer | FN_CloseUDPServer | FN_CloseTCPClient | FN_CloseUDPClient

text \<open>
  An \<^verbatim>\<open>IPConnection\<close> is a pointer to a heap structure: here the address of the
  structure, with \<open>None\<close> for \<^verbatim>\<open>NULL\<close> where the source admits it.
  \<^verbatim>\<open>connection->socket\<close> points to a poller entry; the record keeps the
  descriptor that entry holds, and the poll set is the list of subscribed descriptors.
  \<^verbatim>\<open>buffer\<close> holds the bytes received, the zero bytes that follow them left out.
\<close>

type_synonym IPConnection = nat

record IPConnectionData =
  socket :: int
  ref_ReceiveMessage :: receive_method
  ref_SendMessage :: send_method
  ref_Close :: close_method
  addressData :: IPAddressData
  messageLength :: nat
  buffer :: "string option"
  clientsList :: "IPConnection option list"
  ref_clientsCount :: nat
  server :: "IPConnection option"

text \<open>
  The platform socket API is an external collaborator. Its answers are fields of
  \<open>os_state\<close>: what name resolution returns, which descriptor the next
  \<^verbatim>\<open>socket\<close> or \<^verbatim>\<open>accept\<close> hands out, which calls fail on which descriptor,
  the datagrams (or stream chunks) waiting on a descriptor, oldest first, each with its
  source address, the connections waiting on a listening descriptor, and the readiness
  bits of the last \<^verbatim>\<open>poll\<close>.
\<close>

datatype sockopt =
  SO_REUSEADDR | IPV6_V6ONLY | IPV6_MULTICAST_HOPS | IPV6_MULTICAST_IF | IP_MULTICAST_TTL
  | IP_MULTICAST_IF | SO_BROADCAST | IPV6_ADD_MEMBERSHIP | IP_ADD_MEMBERSHIP

datatype syscall =
  SYS_fcntl | SYS_setsockopt sockopt | SYS_bind | SYS_listen | SYS_connect | SYS_send
  | SYS_sendto | SYS_poll

record os_state =
  getaddrinfo :: "string option \<Rightarrow> 16 word \<Rightarrow> bool \<Rightarrow> IPAddressData list option"
  numeric_host :: "IPAddressData \<Rightarrow> string"
  numeric_serv :: "IPAddressData \<Rightarrow> string option"
  inet_addr :: "string \<Rightarrow> 32 word"
  next_socket :: int
  fails :: "syscall \<Rightarrow> int \<Rightarrow> bool"
  incoming :: "int \<Rightarrow> (IPAddressData \<times> string) list"
  peer_closed :: "int \<Rightarrow> bool"
  pending :: "int \<Rightarrow> IPAddressData list"
  revents :: "int \<Rightarrow> bool"

text \<open>
  The state of ip_network.c: the allocated connection structures by address, the next
  address \<^verbatim>\<open>malloc\<close> returns, the poll set, the platform, and what the layer has
  done to the outside: the payloads handed to \<^verbatim>\<open>send\<close> and \<^verbatim>\<open>sendto\<close> (with the
  descriptor and, for \<^verbatim>\<open>sendto\<close>, the destination), the descriptors closed, and the
  lines written to \<^verbatim>\<open>stderr\<close>. \<open>IP_NETWORK_LEGACY\<close> is the build option.
\<close>

record ip_state =
  heap :: "IPConnection \<Rightarrow> IPConnectionData option"
  next_address :: IPConnection
  polledSocketsList :: "int list"
  os :: os_state
  sent :: "(int \<times> IPAddressData option \<times> string) list"
  closed_fds :: "int list"
  stderr :: "string list"
  IP_NETWORK_LEGACY :: bool

definition fprintf_stderr :: "string \<Rightarrow> ip_state \<Rightarrow> ip_state" where
  "fprintf_stderr line s = s\<lparr>stderr := stderr s @ [line]\<rparr>"

definition close_fd :: "int \<Rightarrow> ip_state \<Rightarrow> ip_state" where
  "close_fd fd s = s\<lparr>closed_fds := closed_fds s @ [fd]\<rparr>"

text \<open>\<^verbatim>\<open>strlen\<close>: the bytes before the first zero byte.\<close>

definition strlen :: "string \<Rightarrow> nat" where
  "strlen message = length (takeWhile (\<lambda>c. c \<noteq> CHR 0x00) message)"

text \<open>\<^verbatim>\<open>recvfrom\<close> and \<^verbatim>\<open>recv\<close> on a non-blocking descriptor: \<open>None\<close> is
  \<^verbatim>\<open>SOCKET_ERROR\<close> (nothing waiting), otherwise the bytes copied (at most
  \<open>len\<close>) and the source address. With \<^verbatim>\<open>MSG_PEEK\<close> the data stays in the socket.\<close>

definition recvfrom :: "int \<Rightarrow> nat \<Rightarrow> bool \<Rightarrow> ip_state \<Rightarrow> (string \<times> IPAddressData) option \<times> ip_state" where
  "recvfrom fd len peek s =
     (case incoming (os s) fd of
        [] \<Rightarrow> (None, s)
      | (address, bytes) # rest \<Rightarrow>
          (Some (take len bytes, address),
           if peek then s
           else s\<lparr>os := (os s)\<lparr>incoming := (incoming (os s))(fd := rest)\<rparr>\<rparr>))"


text \<open>\<^verbatim>\<open>socket\<close> and \<^verbatim>\<open>accept\<close> hand out \<open>next_socket\<close>; \<^verbatim>\<open>accept\<close> fails
  when no connection is waiting.\<close>

definition socket_call :: "ip_state \<Rightarrow> int \<times> ip_state" where
  "socket_call s =
     (let fd = next_socket (os s) in
      if fd = INVALID_SOCKET then (INVALID_SOCKET, s)
      else (fd, s\<lparr>os := (os s)\<lparr>next_socket := fd + 1\<rparr>\<rparr>))"

definition accept_call :: "int \<Rightarrow> ip_state \<Rightarrow> (int \<times> IPAddressData) \<times> ip_state" where
  "accept_call fd s =
     (case pending (os s) fd of
        [] \<Rightarrow> ((INVALID_SOCKET, \<lparr>sa_family = AF_UNSPEC, sin_port = 0, sin_addr = 0, sin6_addr = []\<rparr>), s)
      | address # rest \<Rightarrow>
          (case socket_call (s\<lparr>os := (os s)\<lparr>pending := (pending (os s))(fd := rest)\<rparr>\<rparr>) of
             (clientFD, s') \<Rightarrow> ((clientFD, address), s')))"

text \<open>The pattern of every configuration step: when the call fails, a line goes to
  \<^verbatim>\<open>stderr\<close>, the descriptor is closed and the step returns false.\<close>

definition os_call :: "syscall \<Rightarrow> int \<Rightarrow> string \<Rightarrow> ip_state \<Rightarrow> bool \<times> ip_state" where
  "os_call call socketFD line s =
     (if fails (os s) call socketFD then (False, close_fd socketFD (fprintf_stderr line s))
      else (True, s))"


section \<open>Network utilities\<close>

function decimal :: "nat \<Rightarrow> string" where
  "decimal n =
     (if n < 10 then [char_of (48 + n)]
      else decimal (n div 10) @ [char_of (48 + n mod 10)])"
  by pat_completeness auto
termination
  by (relation "measure id") auto

declare decimal.simps [simp del]

definition GetAddressString :: "IPAddressData \<Rightarrow> ip_state \<Rightarrow> string option \<times> ip_state" where
  "GetAddressString address s =
     (if \<not> IP_NETWORK_LEGACY s then
        (case numeric_serv (os s) address of
           None \<Rightarrow> (None, fprintf_stderr ''getnameinfo: failed getting address string: %s'' s)
         | Some serv \<Rightarrow> (Some (numeric_host (os s) address @ ''/'' @ serv), s))
      else (Some (numeric_host (os s) address @ ''/'' @ decimal (unat (sin_port address))), s))"

text \<open>From here on a result \<open>None\<close> of a function that takes a connection pointer
  means that the call does not return a value: it reads through \<^verbatim>\<open>NULL\<close> or a freed
  structure or outside the client array (undefined behaviour in C), or it loops for
  ever.\<close>

definition IP_GetAddress :: "IPConnection option \<Rightarrow> ip_state \<Rightarrow> (string option \<times> ip_state) option" where
  "IP_GetAddress connection s =
     (case connection of
        None \<Rightarrow> Some (None, s)
      | Some p \<Rightarrow> (case heap s p of None \<Rightarrow> None | Some c \<Rightarrow> Some (GetAddressString (addressData c) s)))"

definition IP_IsServer :: "IPConnection option \<Rightarrow> ip_state \<Rightarrow> bool option" where
  "IP_IsServer connection s =
     (case connection of
        None \<Rightarrow> Some False
      | Some p \<Rightarrow>
          (case heap s p of
             None \<Rightarrow> None
           | Some c \<Rightarrow> Some (ref_Close c = FN_CloseTCPServer \<or> ref_Close c = FN_CloseUDPServer)))"

definition IP_GetClientsNumber :: "IPConnection option \<Rightarrow> ip_state \<Rightarrow> nat option" where
  "IP_GetClientsNumber connection s =
     (case connection of
        None \<Rightarrow> Some 0
      | Some p \<Rightarrow>
          (case IP_IsServer connection s of
             None \<Rightarrow> None
           | Some True \<Rightarrow> map_option ref_clientsCount (heap s p)
           | Some False \<Rightarrow> Some 1))"


section \<open>Initialization\<close>

text \<open>\<^verbatim>\<open>AddConnection\<close>. The structure is allocated at \<open>next_address\<close>. A descriptor
  not yet in the poll set is appended and the set sorted again (the legacy build sets
  its bit; its high-water mark is left out). \<^verbatim>\<open>*ref_clientsCount\<close> of a client is
  never written by the source and never read; it is shown as 0.\<close>

definition AddConnection :: "int \<Rightarrow> IPAddressData \<Rightarrow> 8 word \<Rightarrow> 8 word \<Rightarrow> ip_state \<Rightarrow> IPConnection \<times> ip_state" where
  "AddConnection socketFD address transportProtocol networkRole s =
     (let connection = next_address s;
          polled =
            (if socketFD \<in> set (polledSocketsList s) then polledSocketsList s
             else if IP_NETWORK_LEGACY s then polledSocketsList s @ [socketFD]
             else sort (polledSocketsList s @ [socketFD]));
          c =
            (if networkRole = IP_SERVER then
               \<lparr>socket = socketFD,
                ref_ReceiveMessage =
                  (if transportProtocol = IP_TCP then FN_AcceptTCPClient else FN_AcceptUDPClient),
                ref_SendMessage =
                  (if transportProtocol = IP_UDP \<and> IS_IP_MULTICAST_ADDRESS (IP_NETWORK_LEGACY s) address
                   then FN_SendUDPMessage else FN_SendMessageAll),
                ref_Close =
                  (if transportProtocol = IP_TCP then FN_CloseTCPServer else FN_CloseUDPServer),
                addressData = address,
                messageLength = IP_MAX_MESSAGE_LENGTH,
                buffer = None,
                clientsList = [],
                ref_clientsCount = 0,
                server = None\<rparr>
             else
               \<lparr>socket = socketFD,
                ref_ReceiveMessage =
                  (if transportProtocol = IP_TCP then FN_ReceiveTCPMessage else FN_ReceiveUDPMessage),
                ref_SendMessage =
                  (if transportProtocol = IP_TCP then FN_SendTCPMessage else FN_SendUDPMessage),
                ref_Close =
                  (if transportProtocol = IP_TCP then FN_CloseTCPClient else FN_CloseUDPClient),
                addressData = address,
                messageLength = IP_MAX_MESSAGE_LENGTH,
                buffer = Some [],
                clientsList = [],
                ref_clientsCount = 0,
                server = None\<rparr>)
      in (connection,
          s\<lparr>heap := (heap s)(connection \<mapsto> c),
            next_address := Suc connection,
            polledSocketsList := polled\<rparr>))"

text \<open>The scan of \<^verbatim>\<open>AddClient\<close>: the final \<^verbatim>\<open>clientIndex\<close> and
  \<^verbatim>\<open>clientsListSize\<close>.\<close>

function AddClient_scan :: "IPConnection option list \<Rightarrow> nat \<Rightarrow> nat \<Rightarrow> nat \<Rightarrow> (nat \<times> nat) option" where
  "AddClient_scan clients clientsNumber clientIndex clientsListSize =
     (if clientIndex < clientsNumber then
        (if clientIndex < length clients then
           (if clients ! clientIndex = None then Some (clientIndex, Suc clientsListSize)
            else AddClient_scan clients clientsNumber (Suc clientIndex) (Suc clientsListSize))
         else None)
      else Some (clientIndex, clientsListSize))"
  by pat_completeness auto
termination
  by (relation "measure (\<lambda>(clients, clientsNumber, clientIndex, clientsListSize). clientsNumber - clientIndex)") auto

declare AddClient_scan.simps [simp del]

text \<open>\<^verbatim>\<open>AddClient\<close>. \<^verbatim>\<open>realloc\<close> to \<open>clientIndex + 1\<close> slots keeps the slots
  below \<open>clientIndex\<close>; the new last slot is written right after.\<close>

definition AddClient :: "IPConnection \<Rightarrow> IPConnection \<Rightarrow> ip_state \<Rightarrow> ip_state option" where
  "AddClient srv client s =
     (case heap s client of
        None \<Rightarrow> None
      | Some c \<Rightarrow>
          (let s1 = s\<lparr>heap := (heap s)(client \<mapsto> c\<lparr>server := Some srv\<rparr>)\<rparr> in
           case heap s1 srv of
             None \<Rightarrow> None
           | Some sv \<Rightarrow>
               (case AddClient_scan (clientsList sv) (ref_clientsCount sv) 0 0 of
                  None \<Rightarrow> None
                | Some (clientIndex, clientsListSize) \<Rightarrow>
                    (let clients =
                           (if clientIndex = clientsListSize
                            then take (Suc clientIndex) (clientsList sv @ [None])
                            else clientsList sv)
                     in if clientIndex < length clients then
                          Some (s1\<lparr>heap := (heap s1)(srv \<mapsto>
                                  sv\<lparr>clientsList := clients[clientIndex := Some client],
                                     ref_clientsCount := Suc (ref_clientsCount sv)\<rparr>)\<rparr>)
                        else None))))"

text \<open>\<^verbatim>\<open>LoadAddressInfo\<close>. The port is passed as the number whose decimal string the
  source builds. The modern build takes the first resolved address that
  \<^verbatim>\<open>GetAddressString\<close> can print.\<close>

fun first_printable :: "IPAddressData list \<Rightarrow> ip_state \<Rightarrow> IPAddressData option \<times> ip_state" where
  "first_printable [] s = (None, s)"
| "first_printable (hostInfo # hostsInfoList) s =
     (case GetAddressString hostInfo s of
        (None, s') \<Rightarrow> first_printable hostsInfoList s'
      | (Some addressString, s') \<Rightarrow> (Some hostInfo, s'))"

definition INADDR_ANY :: "32 word" where
  "INADDR_ANY = 0"

definition INADDR_BROADCAST :: "32 word" where
  "INADDR_BROADCAST = 0xFFFFFFFF"

definition INADDR_NONE :: "32 word" where
  "INADDR_NONE = 0xFFFFFFFF"

definition LoadAddressInfo :: "string option \<Rightarrow> 16 word \<Rightarrow> 8 word \<Rightarrow> ip_state \<Rightarrow> IPAddressData option \<times> ip_state" where
  "LoadAddressInfo host port networkRole s =
     (if \<not> IP_NETWORK_LEGACY s then
        (if host = None \<and> networkRole \<noteq> IP_SERVER then (None, s)
         else
           (case getaddrinfo (os s) host port (host = None) of
              None \<Rightarrow> (None, fprintf_stderr ''getaddrinfo: error reading host info: %s'' s)
            | Some hostsInfoList \<Rightarrow> first_printable hostsInfoList s))
      else
        (case host of
           None \<Rightarrow>
             (Some \<lparr>sa_family = AF_INET, sin_port = port, sin_addr = INADDR_ANY, sin6_addr = []\<rparr>, s)
         | Some h \<Rightarrow>
             (if h = ''255.255.255.255'' then
                (Some \<lparr>sa_family = AF_INET, sin_port = port, sin_addr = INADDR_BROADCAST, sin6_addr = []\<rparr>, s)
              else if inet_addr (os s) h = INADDR_NONE then (None, s)
              else
                (Some \<lparr>sa_family = AF_INET, sin_port = port, sin_addr = inet_addr (os s) h,
                       sin6_addr = []\<rparr>, s))))"

definition CreateSocket :: "8 word \<Rightarrow> IPAddressData \<Rightarrow> ip_state \<Rightarrow> int \<times> ip_state" where
  "CreateSocket protocol address s =
     (if protocol = IP_TCP \<or> protocol = IP_UDP then
        (case socket_call s of
           (socketFD, s') \<Rightarrow>
             (socketFD,
              if socketFD = INVALID_SOCKET then fprintf_stderr ''socket: failed opening %s %s socket'' s'
              else s'))
      else (INVALID_SOCKET, s))"

definition SetSocketConfig :: "int \<Rightarrow> ip_state \<Rightarrow> bool \<times> ip_state" where
  "SetSocketConfig socketFD s =
     (case os_call SYS_fcntl socketFD ''failure setting socket %d to non-blocking state'' s of
        (False, s') \<Rightarrow> (False, s')
      | (True, s') \<Rightarrow>
          os_call (SYS_setsockopt SO_REUSEADDR) socketFD
            ''setsockopt: failed setting socket %d option SO_REUSEADDR'' s')"

definition BindServerSocket :: "int \<Rightarrow> IPAddressData \<Rightarrow> ip_state \<Rightarrow> bool \<times> ip_state" where
  "BindServerSocket socketFD address s =
     (case (if sa_family address = AF_INET6
            then os_call (SYS_setsockopt IPV6_V6ONLY) socketFD
                   ''setsockopt: failed setting socket %d option IPV6_V6ONLY'' s
            else (True, s)) of
        (False, s') \<Rightarrow> (False, s')
      | (True, s') \<Rightarrow> os_call SYS_bind socketFD ''bind: failed on binding socket %d'' s')"

definition BindTCPServerSocket :: "int \<Rightarrow> IPAddressData \<Rightarrow> ip_state \<Rightarrow> bool \<times> ip_state" where
  "BindTCPServerSocket socketFD address s =
     (case BindServerSocket socketFD address s of
        (False, s') \<Rightarrow> (False, s')
      | (True, s') \<Rightarrow> os_call SYS_listen socketFD ''listen: failed listening on socket %d'' s')"

definition BindUDPServerSocket :: "int \<Rightarrow> IPAddressData \<Rightarrow> ip_state \<Rightarrow> bool \<times> ip_state" where
  "BindUDPServerSocket socketFD address s =
     (case BindServerSocket socketFD address s of
        (False, s') \<Rightarrow> (False, s')
      | (True, s') \<Rightarrow>
          (if \<not> IP_NETWORK_LEGACY s' then
             (if sa_family address = AF_INET6 then
                (case os_call (SYS_setsockopt IPV6_MULTICAST_HOPS) socketFD
                        ''setsockopt: failed setting socket %d option IPV6_MULTICAST_HOPS'' s' of
                   (False, s'') \<Rightarrow> (False, s'')
                 | (True, s'') \<Rightarrow>
                     os_call (SYS_setsockopt IPV6_MULTICAST_IF) socketFD
                       ''setsockopt: failed setting socket %d option IPV6_MULTICAST_IF'' s'')
              else
                (case os_call (SYS_setsockopt IP_MULTICAST_TTL) socketFD
                        ''setsockopt: failed setting socket %d option IP_MULTICAST_TTL'' s' of
                   (False, s'') \<Rightarrow> (False, s'')
                 | (True, s'') \<Rightarrow>
                     os_call (SYS_setsockopt IP_MULTICAST_IF) socketFD
                       ''setsockopt: failed setting socket %d option IP_MULTICAST_IF'' s''))
           else
             os_call (SYS_setsockopt SO_BROADCAST) socketFD
               ''setsockopt: failed setting socket %d option SO_BROADCAST'' s'))"

definition ConnectTCPClientSocket :: "int \<Rightarrow> IPAddressData \<Rightarrow> ip_state \<Rightarrow> bool \<times> ip_state" where
  "ConnectTCPClientSocket socketFD address s =
     os_call SYS_connect socketFD ''connect: failed on connecting socket %d to remote address'' s"

definition ConnectUDPClientSocket :: "int \<Rightarrow> IPAddressData \<Rightarrow> ip_state \<Rightarrow> bool \<times> ip_state" where
  "ConnectUDPClientSocket socketFD address s =
     (case os_call SYS_bind socketFD ''bind: failed on binding socket %d to arbitrary local port'' s of
        (False, s') \<Rightarrow> (False, s')
      | (True, s') \<Rightarrow>
          (if \<not> IP_NETWORK_LEGACY s' then
             (if sa_family address = AF_INET6 then
                (if IS_IPV6_MULTICAST_ADDRESS False address then
                   os_call (SYS_setsockopt IPV6_ADD_MEMBERSHIP) socketFD
                     ''setsockopt: failed setting socket %d option IPV6_ADD_MEMBERSHIP'' s'
                 else (True, s'))
              else
                (if IS_IPV4_MULTICAST_ADDRESS address then
                   os_call (SYS_setsockopt IP_ADD_MEMBERSHIP) socketFD
                     ''setsockopt: failed setting socket %d option IP_ADD_MEMBERSHIP'' s'
                 else (True, s')))
           else (True, s')))"

definition IP_OpenConnection :: "8 word \<Rightarrow> string option \<Rightarrow> 16 word \<Rightarrow> ip_state \<Rightarrow> IPConnection option \<times> ip_state" where
  "IP_OpenConnection connectionType host port s =
     (if port < 49152 then (None, fprintf_stderr ''invalid port number value: %u'' s)
      else
        (case LoadAddressInfo host port (connectionType AND ROLE_MASK) s of
           (None, s1) \<Rightarrow> (None, s1)
         | (Some address, s1) \<Rightarrow>
             (case CreateSocket (connectionType AND TRANSPORT_MASK) address s1 of
                (socketFD, s2) \<Rightarrow>
                  (if socketFD = INVALID_SOCKET then (None, s2)
                   else
                     (case SetSocketConfig socketFD s2 of
                        (False, s3) \<Rightarrow> (None, s3)
                      | (True, s3) \<Rightarrow>
                          (case
                             (if connectionType = IP_TCP OR IP_SERVER
                                then Some (BindTCPServerSocket socketFD address s3)
                              else if connectionType = IP_UDP OR IP_SERVER
                                then Some (BindUDPServerSocket socketFD address s3)
                              else if connectionType = IP_TCP OR IP_CLIENT
                                then Some (ConnectTCPClientSocket socketFD address s3)
                              else if connectionType = IP_UDP OR IP_CLIENT
                                then Some (ConnectUDPClientSocket socketFD address s3)
                              else None) of
                             None \<Rightarrow> (None, fprintf_stderr ''invalid connection type: %x'' s3)
                           | Some (False, s4) \<Rightarrow> (None, s4)
                           | Some (True, s4) \<Rightarrow>
                               (case AddConnection socketFD address (connectionType AND TRANSPORT_MASK)
                                       (connectionType AND ROLE_MASK) s4 of
                                  (connection, s5) \<Rightarrow> (Some connection, s5))))))))"

text \<open>\<^verbatim>\<open>IP_SetMessageLength\<close>; \<open>mod 2 ^ 16\<close> is the cast to \<^verbatim>\<open>uint16_t\<close>.\<close>

definition IP_SetMessageLength :: "IPConnection option \<Rightarrow> nat \<Rightarrow> ip_state \<Rightarrow> (nat \<times> ip_state) option" where
  "IP_SetMessageLength connection len s =
     (case connection of
        None \<Rightarrow> Some (0, s)
      | Some p \<Rightarrow>
          (case heap s p of
             None \<Rightarrow> None
           | Some c \<Rightarrow>
               (let newLength =
                      (if len > IP_MAX_MESSAGE_LENGTH then IP_MAX_MESSAGE_LENGTH else len mod 2 ^ 16)
                in Some (newLength, s\<lparr>heap := (heap s)(p \<mapsto> c\<lparr>messageLength := newLength\<rparr>)\<rparr>))))"



section \<open>Specific transport/role communication\<close>

text \<open>\<^verbatim>\<open>RemoveSocket\<close>: the poller entry found is given the descriptor
  \<^verbatim>\<open>0xFFFF\<close>, the array is sorted again and its size decreased; the descriptor is
  closed in every case.\<close>

definition RemoveSocket :: "int \<Rightarrow> ip_state \<Rightarrow> ip_state" where
  "RemoveSocket socketFD s =
     close_fd socketFD
       (s\<lparr>polledSocketsList :=
            (if IP_NETWORK_LEGACY s then removeAll socketFD (polledSocketsList s)
             else if socketFD \<in> set (polledSocketsList s)
               then butlast (sort (map (\<lambda>fd. if fd = socketFD then 0xFFFF else fd) (polledSocketsList s)))
             else polledSocketsList s)\<rparr>)"

text \<open>The receive methods return the content of \<^verbatim>\<open>connection->buffer\<close>, or
  \<open>None\<close> for \<^verbatim>\<open>NULL\<close>.\<close>

definition ReceiveTCPMessage :: "IPConnection \<Rightarrow> ip_state \<Rightarrow> (string option \<times> ip_state) option" where
  "ReceiveTCPMessage connection s =
     (case heap s connection of
        None \<Rightarrow> None
      | Some c \<Rightarrow>
          (if socket c = INVALID_SOCKET then Some (None, s)
           else
             (case recvfrom (socket c) (messageLength c) False s of
                (None, s1) \<Rightarrow>
                  (if peer_closed (os s1) (socket c) then
                     Some (None, RemoveSocket (socket c)
                                   (fprintf_stderr ''recv: remote connection with socket %d closed'' s1))
                   else Some (None, fprintf_stderr ''recv: error reading from socket %d'' s1))
              | (Some (bytes, source), s1) \<Rightarrow>
                  (let s2 = s1\<lparr>heap := (heap s1)(connection \<mapsto> c\<lparr>buffer := Some bytes\<rparr>)\<rparr> in
                   if length bytes = 0 then
                     Some (None, RemoveSocket (socket c)
                                   (fprintf_stderr ''recv: remote connection with socket %d closed'' s2))
                   else Some (Some bytes, s2)))))"

text \<open>The send methods hand \<^verbatim>\<open>connection->messageLength\<close> bytes starting at
  \<^verbatim>\<open>message\<close> to the socket. \<open>sent\<close> records the characters of the string among
  them; the terminator and the bytes that follow it in the buffer of the caller are
  left out of the record.\<close>

definition SendTCPMessage :: "IPConnection \<Rightarrow> string \<Rightarrow> ip_state \<Rightarrow> (int \<times> ip_state) option" where
  "SendTCPMessage connection message s =
     (case heap s connection of
        None \<Rightarrow> None
      | Some c \<Rightarrow>
          (if fails (os s) SYS_send (socket c)
           then Some (-1, fprintf_stderr ''send: error writing to socket %d'' s)
           else Some (0, s\<lparr>sent := sent s @ [(socket c, None, take (messageLength c) message)]\<rparr>)))"

definition ReceiveUDPMessage :: "IPConnection \<Rightarrow> ip_state \<Rightarrow> (string option \<times> ip_state) option" where
  "ReceiveUDPMessage connection s =
     (case heap s connection of
        None \<Rightarrow> None
      | Some c \<Rightarrow>
          (case recvfrom (socket c) (messageLength c) True s of
             (None, s1) \<Rightarrow> Some (None, s1)
           | (Some (peeked, address), s1) \<Rightarrow>
               (let s2 = s1\<lparr>heap := (heap s1)(connection \<mapsto> c\<lparr>buffer := Some peeked\<rparr>)\<rparr> in
                if ARE_EQUAL_IP_ADDRESSES (IP_NETWORK_LEGACY s) (addressData c) address then
                  (case recvfrom (socket c) (messageLength c) False s2 of
                     (None, s3) \<Rightarrow> Some (Some peeked, s3)
                   | (Some (bytes, source), s3) \<Rightarrow>
                       Some (Some bytes,
                             s3\<lparr>heap := (heap s3)(connection \<mapsto> c\<lparr>buffer := Some bytes\<rparr>)\<rparr>))
                else Some (None, s2))))"

definition SendUDPMessage :: "IPConnection \<Rightarrow> string \<Rightarrow> ip_state \<Rightarrow> (int \<times> ip_state) option" where
  "SendUDPMessage connection message s =
     (case heap s connection of
        None \<Rightarrow> None
      | Some c \<Rightarrow>
          (if fails (os s) SYS_sendto (socket c)
           then Some (-1, fprintf_stderr ''sendto: error writing to socket %d'' s)
           else Some (0, s\<lparr>sent := sent s @
                              [(socket c, Some (addressData c), take (messageLength c) message)]\<rparr>)))"

text \<open>
  \<^verbatim>\<open>IP_SendMessage\<close> calls the send method of the connection, and the method
  \<^verbatim>\<open>SendMessageAll\<close> calls \<^verbatim>\<open>IP_SendMessage\<close> for every client: one recursive
  function with a case for the entry of \<^verbatim>\<open>IP_SendMessage\<close> and a case for the
  \<^verbatim>\<open>while\<close> loop of \<^verbatim>\<open>SendMessageAll\<close> at a given \<^verbatim>\<open>clientIndex\<close>. The loop
  advances \<^verbatim>\<open>clientIndex\<close> only inside \<^verbatim>\<open>if( clientsList[ clientIndex ] != NULL )\<close>.
\<close>

datatype send_call =
  Call_IP_SendMessage IPConnection
  | Loop_SendMessageAll IPConnection nat nat

partial_function (option) send_calls :: "send_call \<Rightarrow> string \<Rightarrow> ip_state \<Rightarrow> (int \<times> ip_state) option" where
  "send_calls call message s =
     (case call of
        Call_IP_SendMessage connection \<Rightarrow>
          (case heap s connection of
             None \<Rightarrow> None
           | Some c \<Rightarrow>
               (if strlen message + 1 > messageLength c
                then Some (0, fprintf_stderr ''message too long (%lu bytes for %lu max) !'' s)
                else
                  (case ref_SendMessage c of
                     FN_SendTCPMessage \<Rightarrow> SendTCPMessage connection message s
                   | FN_SendUDPMessage \<Rightarrow> SendUDPMessage connection message s
                   | FN_SendMessageAll \<Rightarrow>
                       send_calls (Loop_SendMessageAll connection 0 (ref_clientsCount c)) message s)))
      | Loop_SendMessageAll connection clientIndex clientsNumber \<Rightarrow>
          (if clientIndex < clientsNumber then
             (case heap s connection of
                None \<Rightarrow> None
              | Some c \<Rightarrow>
                  (if clientIndex < length (clientsList c) then
                     (case clientsList c ! clientIndex of
                        None \<Rightarrow>
                          send_calls (Loop_SendMessageAll connection clientIndex clientsNumber) message s
                      | Some client \<Rightarrow>
                          Option.bind (send_calls (Call_IP_SendMessage client) message s)
                            (\<lambda>(result, s').
                               send_calls (Loop_SendMessageAll connection (Suc clientIndex) clientsNumber)
                                 message s'))
                   else None))
           else Some (0, s)))"

definition IP_SendMessage :: "IPConnection \<Rightarrow> string \<Rightarrow> ip_state \<Rightarrow> (int \<times> ip_state) option" where
  "IP_SendMessage connection message s = send_calls (Call_IP_SendMessage connection) message s"

definition SendMessageAll :: "IPConnection \<Rightarrow> string \<Rightarrow> ip_state \<Rightarrow> (int \<times> ip_state) option" where
  "SendMessageAll connection message s =
     (case heap s connection of
        None \<Rightarrow> None
      | Some c \<Rightarrow> send_calls (Loop_SendMessageAll connection 0 (ref_clientsCount c)) message s)"

definition AcceptTCPClient :: "IPConnection \<Rightarrow> ip_state \<Rightarrow> (IPConnection option \<times> ip_state) option" where
  "AcceptTCPClient srv s =
     (case heap s srv of
        None \<Rightarrow> None
      | Some sv \<Rightarrow>
          (case accept_call (socket sv) s of
             ((clientSocketFD, clientAddress), s1) \<Rightarrow>
               (if clientSocketFD = INVALID_SOCKET
                then Some (None, fprintf_stderr ''accept: failed accepting connection on socket %d'' s1)
                else
                  (case AddConnection clientSocketFD clientAddress IP_TCP 0 s1 of
                     (client, s2) \<Rightarrow> map_option (Pair (Some client)) (AddClient srv client s2)))))"

text \<open>The \<^verbatim>\<open>for\<close> loop of \<^verbatim>\<open>AcceptUDPClient\<close> from \<open>clientIndex\<close> on: true when
  a client compares equal to the source address of the datagram.\<close>

function AcceptUDPClient_scan ::
  "ip_state \<Rightarrow> IPConnection option list \<Rightarrow> nat \<Rightarrow> nat \<Rightarrow> IPAddressData \<Rightarrow> bool option" where
  "AcceptUDPClient_scan s clients clientsNumber clientIndex clientAddress =
     (if clientIndex < clientsNumber then
        (if clientIndex < length clients then
           (case clients ! clientIndex of
              None \<Rightarrow> None
            | Some p \<Rightarrow>
                (case heap s p of
                   None \<Rightarrow> None
                 | Some c \<Rightarrow>
                     (if ARE_EQUAL_IP_ADDRESSES (IP_NETWORK_LEGACY s) (addressData c) clientAddress
                      then Some True
                      else AcceptUDPClient_scan s clients clientsNumber (Suc clientIndex) clientAddress)))
         else None)
      else Some False)"
  by pat_completeness auto
termination
  by (relation "measure (\<lambda>(s, clients, clientsNumber, clientIndex, clientAddress). clientsNumber - clientIndex)") auto

declare AcceptUDPClient_scan.simps [simp del]

definition AcceptUDPClient :: "IPConnection \<Rightarrow> ip_state \<Rightarrow> (IPConnection option \<times> ip_state) option" where
  "AcceptUDPClient srv s =
     (case heap s srv of
        None \<Rightarrow> None
      | Some sv \<Rightarrow>
          (case recvfrom (socket sv) IP_MAX_MESSAGE_LENGTH True s of
             (None, s1) \<Rightarrow> Some (None, fprintf_stderr ''recvfrom: error reading from socket %d'' s1)
           | (Some (bytes, clientAddress), s1) \<Rightarrow>
               (case AcceptUDPClient_scan s1 (clientsList sv) (ref_clientsCount sv) 0 clientAddress of
                  None \<Rightarrow> None
                | Some True \<Rightarrow> Some (None, s1)
                | Some False \<Rightarrow>
                    (case AddConnection (socket sv) clientAddress IP_UDP 0 s1 of
                       (client, s2) \<Rightarrow> map_option (Pair (Some client)) (AddClient srv client s2)))))"


section \<open>Generic communication\<close>

definition IP_ReceiveMessage :: "IPConnection \<Rightarrow> ip_state \<Rightarrow> (string option \<times> ip_state) option" where
  "IP_ReceiveMessage connection s =
     (case heap s connection of
        None \<Rightarrow> None
      | Some c \<Rightarrow>
          (case buffer c of
             None \<Rightarrow> None
           | Some old \<Rightarrow>
               (let s1 = s\<lparr>heap := (heap s)(connection \<mapsto> c\<lparr>buffer := Some []\<rparr>)\<rparr> in
                case ref_ReceiveMessage c of
                  FN_ReceiveTCPMessage \<Rightarrow> ReceiveTCPMessage connection s1
                | FN_ReceiveUDPMessage \<Rightarrow> ReceiveUDPMessage connection s1
                | FN_AcceptTCPClient \<Rightarrow> None
                | FN_AcceptUDPClient \<Rightarrow> None)))"

definition IP_AcceptClient :: "IPConnection \<Rightarrow> ip_state \<Rightarrow> (IPConnection option \<times> ip_state) option" where
  "IP_AcceptClient connection s =
     (case heap s connection of
        None \<Rightarrow> None
      | Some c \<Rightarrow>
          (case ref_ReceiveMessage c of
             FN_AcceptTCPClient \<Rightarrow> AcceptTCPClient connection s
           | FN_AcceptUDPClient \<Rightarrow> AcceptUDPClient connection s
           | FN_ReceiveTCPMessage \<Rightarrow> None
           | FN_ReceiveUDPMessage \<Rightarrow> None))"

definition IP_WaitEvent :: "ip_state \<Rightarrow> int \<times> ip_state" where
  "IP_WaitEvent s =
     (if fails (os s) SYS_poll 0
      then (SOCKET_ERROR, fprintf_stderr ''select: error waiting for events on %lu FDs'' s)
      else (int (length (filter (revents (os s)) (polledSocketsList s))), s))"

definition IP_IsDataAvailable :: "IPConnection option \<Rightarrow> ip_state \<Rightarrow> bool option" where
  "IP_IsDataAvailable connection s =
     (case connection of
        None \<Rightarrow> Some False
      | Some p \<Rightarrow> (case heap s p of None \<Rightarrow> None | Some c \<Rightarrow> Some (revents (os s) (socket c))))"


section \<open>Finalizing\<close>

definition free :: "IPConnection \<Rightarrow> ip_state \<Rightarrow> ip_state" where
  "free p s = s\<lparr>heap := (heap s)(p := None)\<rparr>"

definition CloseTCPServer :: "IPConnection \<Rightarrow> ip_state \<Rightarrow> ip_state option" where
  "CloseTCPServer srv s =
     (case heap s srv of
        None \<Rightarrow> None
      | Some sv \<Rightarrow> Some (free srv (RemoveSocket (socket sv) s)))"

definition CloseUDPServer :: "IPConnection \<Rightarrow> ip_state \<Rightarrow> ip_state option" where
  "CloseUDPServer srv s =
     (case heap s srv of
        None \<Rightarrow> None
      | Some sv \<Rightarrow>
          (if ref_clientsCount sv = 0 then Some (free srv (RemoveSocket (socket sv) s))
           else Some s))"

text \<open>The \<^verbatim>\<open>for\<close> loop of \<^verbatim>\<open>RemoveClient\<close> from \<open>clientIndex\<close> on: the client
  list and the clients count it leaves.\<close>

function RemoveClient_scan ::
  "IPConnection option list \<Rightarrow> nat \<Rightarrow> nat \<Rightarrow> nat \<Rightarrow> IPConnection \<Rightarrow> (IPConnection option list \<times> nat) option" where
  "RemoveClient_scan clients count clientsNumber clientIndex client =
     (if clientIndex < clientsNumber then
        (if clientIndex < length clients then
           (if clients ! clientIndex = Some client
            then Some (clients[clientIndex := None], count - 1)
            else RemoveClient_scan clients count clientsNumber (Suc clientIndex) client)
         else None)
      else Some (clients, count))"
  by pat_completeness auto
termination
  by (relation "measure (\<lambda>(clients, count, clientsNumber, clientIndex, client). clientsNumber - clientIndex)") auto

declare RemoveClient_scan.simps [simp del]

definition RemoveClient :: "IPConnection option \<Rightarrow> IPConnection \<Rightarrow> ip_state \<Rightarrow> ip_state option" where
  "RemoveClient srv client s =
     (case srv of
        None \<Rightarrow> Some s
      | Some p \<Rightarrow>
          (case heap s p of
             None \<Rightarrow> None
           | Some sv \<Rightarrow>
               (case RemoveClient_scan (clientsList sv) (ref_clientsCount sv) (ref_clientsCount sv) 0 client of
                  None \<Rightarrow> None
                | Some (clients, count) \<Rightarrow>
                    Some (s\<lparr>heap := (heap s)(p \<mapsto> sv\<lparr>clientsList := clients, ref_clientsCount := count\<rparr>)\<rparr>))))"

definition CloseTCPClient :: "IPConnection \<Rightarrow> ip_state \<Rightarrow> ip_state option" where
  "CloseTCPClient client s =
     (case heap s client of
        None \<Rightarrow> None
      | Some c \<Rightarrow>
          (case RemoveClient (server c) client s of
             None \<Rightarrow> None
           | Some s1 \<Rightarrow> Some (free client (RemoveSocket (socket c) s1))))"

definition CloseUDPClient :: "IPConnection \<Rightarrow> ip_state \<Rightarrow> ip_state option" where
  "CloseUDPClient client s =
     (case heap s client of
        None \<Rightarrow> None
      | Some c \<Rightarrow>
          (case RemoveClient (server c) client s of
             None \<Rightarrow> None
           | Some s1 \<Rightarrow>
               (case server c of
                  None \<Rightarrow> Some (free client (close_fd (socket c) s1))
                | Some p \<Rightarrow>
                    (case heap s1 p of
                       None \<Rightarrow> None
                     | Some sv \<Rightarrow>
                         (if ref_clientsCount sv = 0
                          then map_option (free client) (CloseUDPServer p s1)
                          else Some (free client s1))))))"

definition IP_CloseConnection :: "IPConnection option \<Rightarrow> ip_state \<Rightarrow> ip_state option" where
  "IP_CloseConnection connection s =
     (case connection of
        None \<Rightarrow> Some s
      | Some p \<Rightarrow>
          (case heap s p of
             None \<Rightarrow> None
           | Some c \<Rightarrow>
               (case ref_Close c of
                  FN_CloseTCPServer \<Rightarrow> CloseTCPServer p s
                | FN_CloseUDPServer \<Rightarrow> CloseUDPServer p s
                | FN_CloseTCPClient \<Rightarrow> CloseTCPClient p s
                | FN_CloseUDPClient \<Rightarrow> CloseUDPClient p s)))"



section \<open>Thread-safe queues, thread-safe maps and threads\<close>

text \<open>The threading submodule (thread_safe_queues.h, thread_safe_maps.h, threads.h) is
  not among the sources; its operations follow sections 4.2, 4.3 and 4.5 of the
  specification. A queue slot holds \<open>itemSize\<close> bytes.\<close>

datatype TSQ_mode = TSQUEUE_WAIT | TSQUEUE_NOWAIT

record TSQueueData =
  maxItems :: nat
  itemSize :: nat
  queued :: "string list"

text \<open>Modelled from the spec: \<^verbatim>\<open>TSQ_Create\<close> (thread_safe_queues.c is missing),
  "Create(capacity, element_size)", a bounded FIFO of fixed-size slots, empty at first.\<close>

definition TSQ_Create :: "nat \<Rightarrow> nat \<Rightarrow> TSQueueData" where
  "TSQ_Create capacity element_size = \<lparr>maxItems = capacity, itemSize = element_size, queued = []\<rparr>"

text \<open>Modelled from the spec: \<^verbatim>\<open>TSQ_GetItemsCount\<close> (thread_safe_queues.c is missing),
  "Count()".\<close>

definition TSQ_GetItemsCount :: "TSQueueData \<Rightarrow> nat" where
  "TSQ_GetItemsCount queue = length (queued queue)"

text \<open>Modelled from the spec: \<^verbatim>\<open>TSQ_Enqueue\<close> (thread_safe_queues.c is missing), "Wait
  modes block on a full/empty queue until space/item is available; on Enqueue-NoWait
  into a full queue, behavior is drop-oldest overwrite so the freshest message
  survives". \<open>None\<close>: the caller blocks.\<close>

definition TSQ_Enqueue :: "TSQueueData \<Rightarrow> string \<Rightarrow> TSQ_mode \<Rightarrow> TSQueueData option" where
  "TSQ_Enqueue queue item mode =
     (if length (queued queue) < maxItems queue
      then Some (queue\<lparr>queued := queued queue @ [take (itemSize queue) item]\<rparr>)
      else
        (case mode of
           TSQUEUE_WAIT \<Rightarrow> None
         | TSQUEUE_NOWAIT \<Rightarrow>
             Some (queue\<lparr>queued := tl (queued queue) @ [take (itemSize queue) item]\<rparr>)))"

text \<open>Modelled from the spec: \<^verbatim>\<open>TSQ_Dequeue\<close> (thread_safe_queues.c is missing),
  "Dequeue(out, mode)": the oldest item and the queue without it. \<open>None\<close>: the queue
  is empty, so that a caller in Wait mode blocks (no caller in the sources dequeues in
  NoWait mode).\<close>

definition TSQ_Dequeue :: "TSQueueData \<Rightarrow> TSQ_mode \<Rightarrow> (string \<times> TSQueueData) option" where
  "TSQ_Dequeue queue mode =
     (case queued queue of
        [] \<Rightarrow> None
      | item # rest \<Rightarrow> Some (item, queue\<lparr>queued := rest\<rparr>))"

text \<open>Modelled from the spec: \<^verbatim>\<open>TSQ_Discard\<close> (thread_safe_queues.c is missing),
  "Discard()": the queue and its items are released.\<close>

definition TSQ_Discard :: "TSQueueData \<Rightarrow> TSQueueData" where
  "TSQ_Discard queue = queue\<lparr>queued := []\<rparr>"

text \<open>The structure of async_ip_network.c that the registry stores.\<close>

record AsyncIPConnectionData =
  baseConnection :: "IPConnection option"
  readQueue :: TSQueueData
  writeQueue :: TSQueueData

text \<open>A map is its entries in insertion order and the next identifier it assigns; a
  \<^verbatim>\<open>TSMap\<close> handle is \<open>None\<close> when \<^verbatim>\<open>NULL\<close>, and a \<^verbatim>\<open>NULL\<close> map has no
  item.\<close>

record TSMapData =
  items :: "(nat \<times> AsyncIPConnectionData) list"
  next_id :: nat

type_synonym TSMap = "TSMapData option"

text \<open>Modelled from the spec: \<^verbatim>\<open>TSM_Create\<close> (thread_safe_maps.c is missing),
  "Create(key_kind, value_size)": an empty table.\<close>

definition TSM_Create :: TSMapData where
  "TSM_Create = \<lparr>items = [], next_id = 0\<rparr>"

text \<open>Modelled from the spec: \<^verbatim>\<open>TSM_SetItem\<close> (thread_safe_maps.c is missing),
  "SetItem(key, value) -> assigned opaque ID (integer, monotonically assigned per
  insert)".\<close>

definition TSM_SetItem :: "TSMapData \<Rightarrow> AsyncIPConnectionData \<Rightarrow> nat \<times> TSMapData" where
  "TSM_SetItem m v = (next_id m, m\<lparr>items := items m @ [(next_id m, v)], next_id := Suc (next_id m)\<rparr>)"

text \<open>Modelled from the spec: \<^verbatim>\<open>TSM_AcquireItem\<close> (thread_safe_maps.c is missing),
  "AcquireItem(id) -> pointer to value with exclusive per-entry hold (or null if
  absent)". \<^verbatim>\<open>TSM_ReleaseItem\<close> ends the hold and changes nothing here: every call
  of the facade and every worker callback is taken as one step.\<close>

definition TSM_AcquireItem :: "TSMap \<Rightarrow> nat \<Rightarrow> AsyncIPConnectionData option" where
  "TSM_AcquireItem m k = (case m of None \<Rightarrow> None | Some d \<Rightarrow> map_of (items d) k)"

text \<open>Modelled from the spec: a store through the pointer that \<^verbatim>\<open>TSM_AcquireItem\<close>
  returned (thread_safe_maps.c is missing): the entry of that identifier is changed in
  place.\<close>

definition TSM_update :: "TSMap \<Rightarrow> nat \<Rightarrow> (AsyncIPConnectionData \<Rightarrow> AsyncIPConnectionData) \<Rightarrow> TSMap" where
  "TSM_update m k f =
     map_option (\<lambda>d. d\<lparr>items := map (\<lambda>(k', v). if k' = k then (k', f v) else (k', v)) (items d)\<rparr>) m"

text \<open>Modelled from the spec: \<^verbatim>\<open>TSM_RemoveItem\<close> (thread_safe_maps.c is missing),
  "RemoveItem(id)": removal after release reclaims the slot.\<close>

definition TSM_RemoveItem :: "TSMap \<Rightarrow> nat \<Rightarrow> TSMap" where
  "TSM_RemoveItem m k = map_option (\<lambda>d. d\<lparr>items := filter (\<lambda>(k', v). k' \<noteq> k) (items d)\<rparr>) m"

text \<open>Modelled from the spec: \<^verbatim>\<open>TSM_GetItem\<close> with a \<^verbatim>\<open>NULL\<close> output
  (thread_safe_maps.c is missing), "GetItem(id, out) copy-get": whether the identifier
  has an item.\<close>

definition TSM_GetItem :: "TSMap \<Rightarrow> nat \<Rightarrow> bool" where
  "TSM_GetItem m k = (TSM_AcquireItem m k \<noteq> None)"

text \<open>Modelled from the spec: \<^verbatim>\<open>TSM_GetItemsCount\<close> (thread_safe_maps.c is missing),
  "GetItemsCount()".\<close>

definition TSM_GetItemsCount :: "TSMap \<Rightarrow> nat" where
  "TSM_GetItemsCount m = (case m of None \<Rightarrow> 0 | Some d \<Rightarrow> length (items d))"

text \<open>Modelled from the spec: the key snapshot of \<^verbatim>\<open>TSM_RunForAllKeys\<close>
  (thread_safe_maps.c is missing), "RunForAllKeys(fn) iterates IDs under a snapshot
  calling fn(id)".\<close>

definition TSM_keys :: "TSMap \<Rightarrow> nat list" where
  "TSM_keys m = (case m of None \<Rightarrow> [] | Some d \<Rightarrow> map fst (items d))"

text \<open>A worker thread, as the variable that holds its handle sees it.\<close>

datatype Thread = THREAD_INVALID_HANDLE | THREAD_RUNNING | THREAD_EXITED

text \<open>Modelled from the spec: \<^verbatim>\<open>Thread_Start\<close> (threads.c is missing): the worker
  runs from then on.\<close>

definition Thread_Start :: Thread where
  "Thread_Start = THREAD_RUNNING"

text \<open>Modelled from the spec: \<^verbatim>\<open>Thread_WaitExit\<close> (threads.c is missing), "workers
  see the flag on their next iteration and exit; the join timeout bounds teardown": a
  running worker whose loop flag is cleared has exited when the join returns; one whose
  flag is still set runs on after the timeout.\<close>

definition Thread_WaitExit :: "Thread \<Rightarrow> bool \<Rightarrow> Thread" where
  "Thread_WaitExit thread running =
     (if thread = THREAD_RUNNING \<and> \<not> running then THREAD_EXITED else thread)"

text \<open>An \<^verbatim>\<open>unsigned long\<close> as the eight bytes a queue slot holds, and back.\<close>

definition ulong_bytes :: "nat \<Rightarrow> string" where
  "ulong_bytes n = map (\<lambda>k. char_of (n div 256 ^ k mod 256)) [0..<8]"

definition bytes_ulong :: "string \<Rightarrow> nat" where
  "bytes_ulong bytes = foldr (\<lambda>c n. of_char c + 256 * n) (take 8 bytes) 0"


section \<open>The asynchronous facade (async_ip_network.c)\<close>

text \<open>The file-level variables, the static counter of \<^verbatim>\<open>AsyncIP_GetActivesNumber\<close>,
  and the state of the synchronous layer.\<close>

record async_state =
  globalReadThread :: Thread
  globalWriteThread :: Thread
  isNetworkRunning :: bool
  globalConnectionsList :: TSMap
  activeConnectionsNumber :: nat
  ip :: ip_state

definition fprintf_stderr_async :: "string \<Rightarrow> async_state \<Rightarrow> async_state" where
  "fprintf_stderr_async line s = s\<lparr>ip := fprintf_stderr line (ip s)\<rparr>"

text \<open>\<^verbatim>\<open>AsyncIP_GetActivesNumber\<close>. The counter is \<^verbatim>\<open>static\<close>: it keeps its value
  between calls. \<^verbatim>\<open>size_t\<close> arithmetic is modulo \<open>2 ^ 64\<close>.\<close>

definition AsyncIP_GetActivesNumber :: "async_state \<Rightarrow> nat \<times> async_state" where
  "AsyncIP_GetActivesNumber s =
     (let globalConnectionsListSize = TSM_GetItemsCount (globalConnectionsList s);
          n = (activeConnectionsNumber s +
                 length (filter (\<lambda>connectionIndex. TSM_GetItem (globalConnectionsList s) connectionIndex)
                           [0..<globalConnectionsListSize])) mod 2 ^ 64
      in (n, s\<lparr>activeConnectionsNumber := n\<rparr>))"

definition AsyncIP_GetClientsNumber :: "nat \<Rightarrow> async_state \<Rightarrow> nat option" where
  "AsyncIP_GetClientsNumber serverID s =
     (case TSM_AcquireItem (globalConnectionsList s) serverID of
        None \<Rightarrow> Some 0
      | Some connection \<Rightarrow> IP_GetClientsNumber (baseConnection connection) (ip s))"

definition AsyncIP_GetAddress :: "nat \<Rightarrow> async_state \<Rightarrow> (string option \<times> async_state) option" where
  "AsyncIP_GetAddress connectionID s =
     (case TSM_AcquireItem (globalConnectionsList s) connectionID of
        None \<Rightarrow> Some (None, s)
      | Some connection \<Rightarrow>
          map_option (\<lambda>(addressString, ip'). (addressString, s\<lparr>ip := ip'\<rparr>))
            (IP_GetAddress (baseConnection connection) (ip s)))"

definition AddAsyncConnection :: "IPConnection \<Rightarrow> async_state \<Rightarrow> (nat \<times> async_state) option" where
  "AddAsyncConnection base s =
     (let s1 =
            (if globalConnectionsList s = None then
               s\<lparr>globalConnectionsList := Some TSM_Create,
                 globalReadThread := Thread_Start,
                 globalWriteThread := Thread_Start,
                 isNetworkRunning := True\<rparr>
             else s)
      in case IP_IsServer (Some base) (ip s1) of
           None \<Rightarrow> None
         | Some isServer \<Rightarrow>
             (let readQueueItemSize = (if \<not> isServer then IP_MAX_MESSAGE_LENGTH else 8);
                  connectionData =
                    \<lparr>baseConnection = Some base,
                     readQueue = TSQ_Create QUEUE_MAX_ITEMS readQueueItemSize,
                     writeQueue = TSQ_Create QUEUE_MAX_ITEMS IP_MAX_MESSAGE_LENGTH\<rparr>
              in case globalConnectionsList s1 of
                   None \<Rightarrow> None
                 | Some m \<Rightarrow>
                     (case TSM_SetItem m connectionData of
                        (connectionID, m') \<Rightarrow>
                          Some (connectionID, s1\<lparr>globalConnectionsList := Some m'\<rparr>))))"

definition AsyncIP_OpenConnection :: "8 word \<Rightarrow> string option \<Rightarrow> 16 word \<Rightarrow> async_state \<Rightarrow> (nat \<times> async_state) option" where
  "AsyncIP_OpenConnection connectionType host port s =
     (case IP_OpenConnection connectionType host port (ip s) of
        (None, ip') \<Rightarrow>
          Some (IP_CONNECTION_INVALID_ID,
                fprintf_stderr_async ''failed to create connection type %x on host %s and port %u''
                  (s\<lparr>ip := ip'\<rparr>))
      | (Some base, ip') \<Rightarrow> AddAsyncConnection base (s\<lparr>ip := ip'\<rparr>))"

definition AsyncIP_SetMessageLength :: "nat \<Rightarrow> nat \<Rightarrow> async_state \<Rightarrow> (nat \<times> async_state) option" where
  "AsyncIP_SetMessageLength connectionID len s =
     (case TSM_AcquireItem (globalConnectionsList s) connectionID of
        None \<Rightarrow> Some (0, s)
      | Some connection \<Rightarrow>
          map_option (\<lambda>(newLength, ip'). (newLength, s\<lparr>ip := ip'\<rparr>))
            (IP_SetMessageLength (baseConnection connection) len (ip s)))"


text \<open>\<^verbatim>\<open>ReadToQueue\<close>, the callback of the reader worker.\<close>

definition ReadToQueue :: "nat \<Rightarrow> async_state \<Rightarrow> async_state option" where
  "ReadToQueue connectionID s =
     (case TSM_AcquireItem (globalConnectionsList s) connectionID of
        None \<Rightarrow> Some s
      | Some connection \<Rightarrow>
          (if TSQ_GetItemsCount (readQueue connection) \<ge> QUEUE_MAX_ITEMS then Some s
           else do {
             available \<leftarrow> IP_IsDataAvailable (baseConnection connection) (ip s);
             if available then do {
               isServer \<leftarrow> IP_IsServer (baseConnection connection) (ip s);
               base \<leftarrow> baseConnection connection;
               if isServer then do {
                 (newClient, ip1) \<leftarrow> IP_AcceptClient base (ip s);
                 case newClient of
                   None \<Rightarrow> Some (s\<lparr>ip := ip1\<rparr>)
                 | Some client \<Rightarrow> do {
                     (addressString, ip2) \<leftarrow> IP_GetAddress newClient ip1;
                     case addressString of
                       None \<Rightarrow> Some (s\<lparr>ip := ip2\<rparr>)
                     | Some str \<Rightarrow> do {
                         (newClientID, s3) \<leftarrow> AddAsyncConnection client (s\<lparr>ip := ip2\<rparr>);
                         queue \<leftarrow> TSQ_Enqueue (readQueue connection) (ulong_bytes newClientID) TSQUEUE_WAIT;
                         Some (s3\<lparr>globalConnectionsList :=
                                     TSM_update (globalConnectionsList s3) connectionID
                                       (\<lambda>e. e\<lparr>readQueue := queue\<rparr>)\<rparr>)
                       }
                   }
               }
               else do {
                 (lastMessage, ip1) \<leftarrow> IP_ReceiveMessage base (ip s);
                 case lastMessage of
                   None \<Rightarrow> Some (s\<lparr>ip := ip1\<rparr>)
                 | Some message \<Rightarrow> do {
                     queue \<leftarrow> TSQ_Enqueue (readQueue connection) message TSQUEUE_WAIT;
                     Some (s\<lparr>ip := ip1,
                             globalConnectionsList :=
                               TSM_update (globalConnectionsList s) connectionID
                                 (\<lambda>e. e\<lparr>readQueue := queue\<rparr>)\<rparr>)
                   }
               }
             }
             else Some s
           }))"

text \<open>\<^verbatim>\<open>WriteFromQueue\<close>, the callback of the writer worker.\<close>

definition WriteFromQueue :: "nat \<Rightarrow> async_state \<Rightarrow> async_state option" where
  "WriteFromQueue connectionID s =
     (case TSM_AcquireItem (globalConnectionsList s) connectionID of
        None \<Rightarrow> Some s
      | Some connection \<Rightarrow>
          (if TSQ_GetItemsCount (writeQueue connection) = 0 then Some s
           else do {
             (firstMessage, queue) \<leftarrow> TSQ_Dequeue (writeQueue connection) TSQUEUE_WAIT;
             base \<leftarrow> baseConnection connection;
             (result, ip1) \<leftarrow> IP_SendMessage base firstMessage (ip s);
             let s1 = s\<lparr>ip := ip1,
                        globalConnectionsList :=
                          TSM_update (globalConnectionsList s) connectionID
                            (\<lambda>e. e\<lparr>writeQueue := queue\<rparr>)\<rparr>;
             if result = -1
             then Some (s1\<lparr>globalConnectionsList := TSM_RemoveItem (globalConnectionsList s1) connectionID\<rparr>)
             else Some s1
           }))"

text \<open>One pass of \<^verbatim>\<open>TSM_RunForAllKeys\<close> over the key snapshot.\<close>

fun run_keys :: "(nat \<Rightarrow> async_state \<Rightarrow> async_state option) \<Rightarrow> nat list \<Rightarrow> async_state \<Rightarrow> async_state option" where
  "run_keys f [] s = Some s"
| "run_keys f (k # ks) s = Option.bind (f k s) (run_keys f ks)"

text \<open>Modelled from the spec: \<^verbatim>\<open>TSM_RunForAllKeys\<close> (thread_safe_maps.c is missing),
  "RunForAllKeys(fn) iterates IDs under a snapshot calling fn(id) without holding the
  map lock".\<close>

definition TSM_RunForAllKeys :: "(nat \<Rightarrow> async_state \<Rightarrow> async_state option) \<Rightarrow> async_state \<Rightarrow> async_state option" where
  "TSM_RunForAllKeys f s = run_keys f (TSM_keys (globalConnectionsList s)) s"

text \<open>The bodies of the \<^verbatim>\<open>while( isNetworkRunning )\<close> loops of the two workers.\<close>

definition AsyncReadQueues_body :: "async_state \<Rightarrow> async_state option" where
  "AsyncReadQueues_body s =
     (case IP_WaitEvent (ip s) of
        (eventsNumber, ip1) \<Rightarrow>
          (if eventsNumber > 0 then TSM_RunForAllKeys ReadToQueue (s\<lparr>ip := ip1\<rparr>)
           else Some (s\<lparr>ip := ip1\<rparr>)))"

definition AsyncWriteQueues_body :: "async_state \<Rightarrow> async_state option" where
  "AsyncWriteQueues_body s = TSM_RunForAllKeys WriteFromQueue s"

text \<open>\<^verbatim>\<open>AsyncIP_ReadMessage\<close> returns the content of the static buffer
  \<^verbatim>\<open>messageData\<close>, or \<open>None\<close> for \<^verbatim>\<open>NULL\<close>.\<close>

definition AsyncIP_ReadMessage :: "nat \<Rightarrow> async_state \<Rightarrow> (string option \<times> async_state) option" where
  "AsyncIP_ReadMessage clientID s =
     (case TSM_AcquireItem (globalConnectionsList s) clientID of
        None \<Rightarrow> Some (None, s)
      | Some client \<Rightarrow> do {
          isServer \<leftarrow> IP_IsServer (baseConnection client) (ip s);
          if \<not> isServer then
            (if TSQ_GetItemsCount (readQueue client) > 0 then do {
               (messageData, queue) \<leftarrow> TSQ_Dequeue (readQueue client) TSQUEUE_WAIT;
               Some (Some messageData,
                     s\<lparr>globalConnectionsList :=
                         TSM_update (globalConnectionsList s) clientID (\<lambda>e. e\<lparr>readQueue := queue\<rparr>)\<rparr>)
             }
             else Some (None, s))
          else Some (None, fprintf_stderr_async ''connection index %lu is not of a client connection'' s)
        })"

definition AsyncIP_WriteMessage :: "nat \<Rightarrow> string \<Rightarrow> async_state \<Rightarrow> (bool \<times> async_state) option" where
  "AsyncIP_WriteMessage connectionID message s =
     (case TSM_AcquireItem (globalConnectionsList s) connectionID of
        None \<Rightarrow> Some (False, s)
      | Some connection \<Rightarrow> do {
          let s1 = (if TSQ_GetItemsCount (writeQueue connection) \<ge> QUEUE_MAX_ITEMS
                    then fprintf_stderr_async ''connection index %lu write queue is full'' s
                    else s);
          queue \<leftarrow> TSQ_Enqueue (writeQueue connection) message TSQUEUE_NOWAIT;
          Some (True,
                s1\<lparr>globalConnectionsList :=
                     TSM_update (globalConnectionsList s1) connectionID (\<lambda>e. e\<lparr>writeQueue := queue\<rparr>)\<rparr>)
        })"

definition AsyncIP_GetClient :: "nat \<Rightarrow> async_state \<Rightarrow> (nat \<times> async_state) option" where
  "AsyncIP_GetClient serverID s =
     (case TSM_AcquireItem (globalConnectionsList s) serverID of
        None \<Rightarrow> Some (IP_CONNECTION_INVALID_ID, s)
      | Some srv \<Rightarrow> do {
          isServer \<leftarrow> IP_IsServer (baseConnection srv) (ip s);
          if isServer then
            (if TSQ_GetItemsCount (readQueue srv) > 0 then do {
               (firstClient, queue) \<leftarrow> TSQ_Dequeue (readQueue srv) TSQUEUE_WAIT;
               Some (bytes_ulong firstClient,
                     s\<lparr>globalConnectionsList :=
                         TSM_update (globalConnectionsList s) serverID (\<lambda>e. e\<lparr>readQueue := queue\<rparr>)\<rparr>)
             }
             else Some (IP_CONNECTION_INVALID_ID, s))
          else Some (IP_CONNECTION_INVALID_ID,
                     fprintf_stderr_async ''connection index %d is not a server index'' s)
        })"

definition AsyncIP_CloseConnection :: "nat \<Rightarrow> async_state \<Rightarrow> async_state option" where
  "AsyncIP_CloseConnection connectionID s =
     (case TSM_AcquireItem (globalConnectionsList s) connectionID of
        None \<Rightarrow> Some s
      | Some connection \<Rightarrow> do {
          ip1 \<leftarrow> IP_CloseConnection (baseConnection connection) (ip s);
          let discarded =
                TSM_update (globalConnectionsList s) connectionID
                  (\<lambda>e. e\<lparr>baseConnection := None,
                         readQueue := TSQ_Discard (readQueue e),
                         writeQueue := TSQ_Discard (writeQueue e)\<rparr>);
          let s1 = s\<lparr>ip := ip1, globalConnectionsList := TSM_RemoveItem discarded connectionID\<rparr>;
          if TSM_GetItemsCount (globalConnectionsList s1) = 0 then
            Some (s1\<lparr>isNetworkRunning := False,
                     globalReadThread := Thread_WaitExit (globalReadThread s1) False,
                     globalWriteThread := Thread_WaitExit (globalWriteThread s1) False,
                     globalConnectionsList := None\<rparr>)
          else Some s1
        })"


section \<open>Runs of the library\<close>

text \<open>
  What can happen to the library, one step each: a call of the facade by the
  application (its result dropped), one iteration of the loop of a worker that runs
  (a worker that finds \<^verbatim>\<open>isNetworkRunning\<close> cleared leaves its loop), and the
  platform changing its answers (datagrams arrive, peers close, calls start to fail).
  A step is \<open>None\<close> when the call does not return.
\<close>

datatype event =
  OpenConnection "8 word" "string option" "16 word"
  | CloseConnection nat
  | GetAddress nat
  | GetActivesNumber
  | GetClientsNumber nat
  | SetMessageLength nat nat
  | ReadMessage nat
  | WriteMessage nat string
  | GetClient nat
  | ReaderIteration
  | WriterIteration
  | Platform os_state

fun step :: "event \<Rightarrow> async_state \<Rightarrow> async_state option" where
  "step (OpenConnection connectionType host port) s =
     map_option snd (AsyncIP_OpenConnection connectionType host port s)"
| "step (CloseConnection connectionID) s = AsyncIP_CloseConnection connectionID s"
| "step (GetAddress connectionID) s = map_option snd (AsyncIP_GetAddress connectionID s)"
| "step GetActivesNumber s = Some (snd (AsyncIP_GetActivesNumber s))"
| "step (GetClientsNumber serverID) s = map_option (\<lambda>n. s) (AsyncIP_GetClientsNumber serverID s)"
| "step (SetMessageLength connectionID len) s =
     map_option snd (AsyncIP_SetMessageLength connectionID len s)"
| "step (ReadMessage clientID) s = map_option snd (AsyncIP_ReadMessage clientID s)"
| "step (WriteMessage connectionID message) s =
     map_option snd (AsyncIP_WriteMessage connectionID message s)"
| "step (GetClient serverID) s = map_option snd (AsyncIP_GetClient serverID s)"
| "step ReaderIteration s =
     (if globalReadThread s = THREAD_RUNNING then
        (if isNetworkRunning s then AsyncReadQueues_body s
         else Some (s\<lparr>globalReadThread := THREAD_EXITED\<rparr>))
      else Some s)"
| "step WriterIteration s =
     (if globalWriteThread s = THREAD_RUNNING then
        (if isNetworkRunning s then AsyncWriteQueues_body s
         else Some (s\<lparr>globalWriteThread := THREAD_EXITED\<rparr>))
      else Some s)"
| "step (Platform os') s = Some (s\<lparr>ip := (ip s)\<lparr>os := os'\<rparr>\<rparr>)"

fun run :: "event list \<Rightarrow> async_state \<Rightarrow> async_state option" where
  "run [] s = Some s"
| "run (e # es) s = Option.bind (step e s) (run es)"

text \<open>The state at program start: no thread, no registry, nothing allocated.\<close>

definition initial_state :: "bool \<Rightarrow> os_state \<Rightarrow> async_state" where
  "initial_state legacy platform =
     \<lparr>globalReadThread = THREAD_INVALID_HANDLE,
      globalWriteThread = THREAD_INVALID_HANDLE,
      isNetworkRunning = False,
      globalConnectionsList = None,
      activeConnectionsNumber = 0,
      ip = \<lparr>heap = (\<lambda>p. None),
            next_address = 1,
            polledSocketsList = [],
            os = platform,
            sent = [],
            closed_fds = [],
            stderr = [],
            IP_NETWORK_LEGACY = legacy\<rparr>\<rparr>"



section \<open>Properties of states, and example platforms\<close>

text \<open>No connection structure holds a message length bound above
  \<^verbatim>\<open>IP_MAX_MESSAGE_LENGTH\<close>, and no payload handed to \<^verbatim>\<open>send\<close> or
  \<^verbatim>\<open>sendto\<close> was longer.\<close>

definition lengths_bounded :: "ip_state \<Rightarrow> bool" where
  "lengths_bounded s = (\<forall>p c. heap s p = Some c \<longrightarrow> messageLength c \<le> IP_MAX_MESSAGE_LENGTH)"

definition wire_bounded :: "ip_state \<Rightarrow> bool" where
  "wire_bounded s =
     (\<forall>fd destination payload.
        (fd, destination, payload) \<in> set (sent s) \<longrightarrow> length payload \<le> IP_MAX_MESSAGE_LENGTH)"

text \<open>A queue of capacity \<^verbatim>\<open>QUEUE_MAX_ITEMS\<close> that holds no more than that, and a
  registry all of whose queues are such.\<close>

definition queue_ok :: "TSQueueData \<Rightarrow> bool" where
  "queue_ok queue = (maxItems queue = QUEUE_MAX_ITEMS \<and> length (queued queue) \<le> QUEUE_MAX_ITEMS)"

definition queues_ok :: "TSMap \<Rightarrow> bool" where
  "queues_ok m =
     (case m of
        None \<Rightarrow> True
      | Some d \<Rightarrow>
          (\<forall>connectionID connection.
             (connectionID, connection) \<in> set (items d) \<longrightarrow>
             queue_ok (readQueue connection) \<and> queue_ok (writeQueue connection)))"

text \<open>Both workers run, or neither does.\<close>

definition workers_running :: "async_state \<Rightarrow> bool" where
  "workers_running s = (globalReadThread s = THREAD_RUNNING \<and> globalWriteThread s = THREAD_RUNNING)"

definition workers_stopped :: "async_state \<Rightarrow> bool" where
  "workers_stopped s = (globalReadThread s \<noteq> THREAD_RUNNING \<and> globalWriteThread s \<noteq> THREAD_RUNNING)"

text \<open>A platform on which every call succeeds and nothing arrives: names resolve to
  10.0.0.1 with the port asked for, the passive lookup of a \<^verbatim>\<open>NULL\<close> host (for
  which \<^verbatim>\<open>LoadAddressInfo\<close> asks for \<^verbatim>\<open>AF_INET6\<close>) gives the IPv6 wildcard
  address, and the first descriptor handed out is 3.\<close>

definition platform_ok :: os_state where
  "platform_ok =
     \<lparr>getaddrinfo = (\<lambda>host port passive.
         Some [if passive
               then \<lparr>sa_family = AF_INET6, sin_port = port, sin_addr = 0, sin6_addr = replicate 16 0\<rparr>
               else \<lparr>sa_family = AF_INET, sin_port = port, sin_addr = 0x0A000001, sin6_addr = []\<rparr>]),
      numeric_host = (\<lambda>address. if sa_family address = AF_INET6 then ''::'' else ''10.0.0.1''),
      numeric_serv = (\<lambda>address. Some ''50000''),
      inet_addr = (\<lambda>host. 0x0A000001),
      next_socket = 3,
      fails = (\<lambda>call fd. False),
      incoming = (\<lambda>fd. []),
      peer_closed = (\<lambda>fd. False),
      pending = (\<lambda>fd. []),
      revents = (\<lambda>fd. False)\<rparr>"

text \<open>The peers 10.0.0.1:50000, 10.0.0.2:50000 and 10.0.0.3:50000, and the platform once one datagram
  from a given source waits on a descriptor that polls readable.\<close>

definition peer_A :: IPAddressData where
  "peer_A = \<lparr>sa_family = AF_INET, sin_port = 50000, sin_addr = 0x0A000001, sin6_addr = []\<rparr>"

definition peer_B :: IPAddressData where
  "peer_B = \<lparr>sa_family = AF_INET, sin_port = 50000, sin_addr = 0x0A000002, sin6_addr = []\<rparr>"

definition peer_C :: IPAddressData where
  "peer_C = \<lparr>sa_family = AF_INET, sin_port = 50000, sin_addr = 0x0A000003, sin6_addr = []\<rparr>"

definition delivering :: "int \<Rightarrow> IPAddressData \<Rightarrow> string \<Rightarrow> os_state" where
  "delivering fd source bytes =
     platform_ok\<lparr>next_socket := 4,
                 incoming := (\<lambda>d. if d = fd then [(source, bytes)] else []),
                 revents := (\<lambda>d. d = fd)\<rparr>"

text \<open>The platform with names resolving to the multicast group 224.0.0.1, and the
  platform once \<^verbatim>\<open>send\<close> and \<^verbatim>\<open>sendto\<close> fail.\<close>

definition platform_multicast :: os_state where
  "platform_multicast =
     platform_ok\<lparr>getaddrinfo := (\<lambda>host port passive.
         Some [\<lparr>sa_family = AF_INET, sin_port = port, sin_addr = 0xE0000001, sin6_addr = []\<rparr>]),
       numeric_host := (\<lambda>address. ''224.0.0.1'')\<rparr>"

definition send_failing :: "os_state \<Rightarrow> os_state" where
  "send_failing platform =
     platform\<lparr>next_socket := 4, fails := (\<lambda>call fd. call = SYS_send \<or> call = SYS_sendto)\<rparr>"


text \<open>The platform once ten datagrams from 10.0.0.1:50000 wait on descriptor 3, and a
  run that fills both queues of a UDP client: the reader takes the ten datagrams, the
  application writes eleven messages.\<close>

definition ten_datagrams :: os_state where
  "ten_datagrams =
     platform_ok\<lparr>next_socket := 4,
       incoming := (\<lambda>d. if d = 3 then
          [(peer_A, ''m0''), (peer_A, ''m1''), (peer_A, ''m2''), (peer_A, ''m3''), (peer_A, ''m4''),
           (peer_A, ''m5''), (peer_A, ''m6''), (peer_A, ''m7''), (peer_A, ''m8''), (peer_A, ''m9'')]
          else []),
       revents := (\<lambda>d. d = 3)\<rparr>"

definition full_queues_run :: "event list" where
  "full_queues_run =
     [OpenConnection 0x22 (Some ''10.0.0.1'') 50000, Platform ten_datagrams,
      ReaderIteration, ReaderIteration, ReaderIteration, ReaderIteration, ReaderIteration,
      ReaderIteration, ReaderIteration, ReaderIteration, ReaderIteration, ReaderIteration,
      WriteMessage 0 ''w0'', WriteMessage 0 ''w1'', WriteMessage 0 ''w2'', WriteMessage 0 ''w3'',
      WriteMessage 0 ''w4'', WriteMessage 0 ''w5'', WriteMessage 0 ''w6'', WriteMessage 0 ''w7'',
      WriteMessage 0 ''w8'', WriteMessage 0 ''w9'', WriteMessage 0 ''w10'']"

text \<open>A platform on which opening a server with a \<^verbatim>\<open>NULL\<close> host goes through: the
  passive lookup returns an address that can be printed, a descriptor is handed out and
  no call on it fails.\<close>

definition platform_cooperates :: "ip_state \<Rightarrow> 16 word \<Rightarrow> bool" where
  "platform_cooperates s port =
     ((IP_NETWORK_LEGACY s \<or>
       (case getaddrinfo (os s) None port True of
          None \<Rightarrow> False
        | Some hostsInfoList \<Rightarrow>
            (case hostsInfoList of
               [] \<Rightarrow> False
             | hostInfo # rest \<Rightarrow> numeric_serv (os s) hostInfo \<noteq> None))) \<and>
      next_socket (os s) \<noteq> INVALID_SOCKET \<and>
      (\<forall>call. fails (os s) call (next_socket (os s)) = False))"

text \<open>The first \<^verbatim>\<open>*ref_clientsCount\<close> slots of the client list of a server hold
  clients that are allocated and do not themselves send through
  \<^verbatim>\<open>SendMessageAll\<close>.\<close>

definition clients_listed :: "ip_state \<Rightarrow> IPConnectionData \<Rightarrow> bool" where
  "clients_listed s c =
     (\<forall>clientIndex < ref_clientsCount c.
        clientIndex < length (clientsList c) \<and>
        (\<exists>client cc. clientsList c ! clientIndex = Some client \<and> heap s client = Some cc \<and>
           ref_SendMessage cc \<noteq> FN_SendMessageAll))"

text \<open>The invariant of the synchronous layer, steps that leave the connection
  structures and the wire as they are, and the invariant of a run.\<close>

definition ipinv :: "ip_state \<Rightarrow> bool" where
  "ipinv s = (lengths_bounded s \<and> wire_bounded s)"

definition outside_only :: "ip_state \<Rightarrow> ip_state \<Rightarrow> bool" where
  "outside_only s s' =
     (heap s' = heap s \<and> sent s' = sent s \<and> next_address s' = next_address s \<and>
      IP_NETWORK_LEGACY s' = IP_NETWORK_LEGACY s)"

definition Inv :: "async_state \<Rightarrow> bool" where
  "Inv s = (ipinv (ip s) \<and> queues_ok (globalConnectionsList s))"



text \<open>The platform once a connection from a given peer waits on a listening
  descriptor that polls readable.\<close>

definition connecting :: "int \<Rightarrow> IPAddressData \<Rightarrow> os_state" where
  "connecting fd peer =
     platform_ok\<lparr>next_socket := 4,
                 pending := (\<lambda>d. if d = fd then [peer] else []),
                 revents := (\<lambda>d. d = fd)\<rparr>"

text \<open>A TCP server accepts one client; then every \<^verbatim>\<open>send\<close> fails and a message is
  queued for the server.\<close>

definition broadcast_run :: "event list" where
  "broadcast_run =
     [OpenConnection 0x11 (Some ''10.0.0.1'') 50000, Platform (connecting 3 peer_B), ReaderIteration,
      Platform (send_failing platform_ok), WriteMessage 0 ''hello'']"

text \<open>A TCP server accepts two clients, the first of them is closed, and a message is
  queued for the server.\<close>

definition hole_run :: "event list" where
  "hole_run =
     [OpenConnection 0x11 (Some ''10.0.0.1'') 50000,
      Platform (connecting 3 peer_B), ReaderIteration,
      Platform ((connecting 3 peer_C)\<lparr>next_socket := 5\<rparr>), ReaderIteration,
      CloseConnection 1, WriteMessage 0 ''hello'']"

section \<open>The invariant of the synchronous layer\<close>

lemma wire_bounded_updates [simp]:
  "wire_bounded (s\<lparr>heap := h\<rparr>) = wire_bounded s"
  "wire_bounded (s\<lparr>os := x\<rparr>) = wire_bounded s"
  "wire_bounded (s\<lparr>polledSocketsList := l\<rparr>) = wire_bounded s"
  "wire_bounded (s\<lparr>next_address := n\<rparr>) = wire_bounded s"
  "wire_bounded (s\<lparr>stderr := e\<rparr>) = wire_bounded s"
  "wire_bounded (s\<lparr>closed_fds := f\<rparr>) = wire_bounded s"
  "wire_bounded (s\<lparr>sent := sent s @ [(fd, d, payload)]\<rparr>) =
     (wire_bounded s \<and> length payload \<le> IP_MAX_MESSAGE_LENGTH)"
  by (auto simp: wire_bounded_def)

lemma lengths_bounded_updates [simp]:
  "lengths_bounded (s\<lparr>os := x\<rparr>) = lengths_bounded s"
  "lengths_bounded (s\<lparr>polledSocketsList := l\<rparr>) = lengths_bounded s"
  "lengths_bounded (s\<lparr>next_address := n\<rparr>) = lengths_bounded s"
  "lengths_bounded (s\<lparr>stderr := e\<rparr>) = lengths_bounded s"
  "lengths_bounded (s\<lparr>closed_fds := f\<rparr>) = lengths_bounded s"
  "lengths_bounded (s\<lparr>sent := w\<rparr>) = lengths_bounded s"
  by (auto simp: lengths_bounded_def)

lemma ipinv_updates [simp]:
  "ipinv (s\<lparr>os := x\<rparr>) = ipinv s"
  "ipinv (s\<lparr>polledSocketsList := l\<rparr>) = ipinv s"
  "ipinv (s\<lparr>next_address := n\<rparr>) = ipinv s"
  "ipinv (s\<lparr>stderr := e\<rparr>) = ipinv s"
  "ipinv (s\<lparr>closed_fds := f\<rparr>) = ipinv s"
  "ipinv (fprintf_stderr line s) = ipinv s"
  "ipinv (close_fd fd s) = ipinv s"
  by (auto simp: ipinv_def fprintf_stderr_def close_fd_def)

lemma ipinv_heap:
  "ipinv s \<Longrightarrow> (\<And>p c. h p = Some c \<Longrightarrow> messageLength c \<le> IP_MAX_MESSAGE_LENGTH) \<Longrightarrow>
   ipinv (s\<lparr>heap := h\<rparr>)"
  by (simp add: ipinv_def lengths_bounded_def)

lemma ipinv_free: "ipinv s \<Longrightarrow> ipinv (free p s)"
  by (simp add: ipinv_def lengths_bounded_def free_def)

lemma ipinv_sent:
  "ipinv s \<Longrightarrow> length payload \<le> IP_MAX_MESSAGE_LENGTH \<Longrightarrow> ipinv (s\<lparr>sent := sent s @ [(fd, d, payload)]\<rparr>)"
  by (simp add: ipinv_def)

lemma ipinv_lookup: "ipinv s \<Longrightarrow> heap s p = Some c \<Longrightarrow> messageLength c \<le> IP_MAX_MESSAGE_LENGTH"
  by (simp add: ipinv_def lengths_bounded_def)

lemma ipinv_outside: "outside_only s s' \<Longrightarrow> ipinv s' = ipinv s"
  by (simp add: outside_only_def ipinv_def lengths_bounded_def wire_bounded_def)

lemma outside_recvfrom: "recvfrom fd len peek s = (r, s') \<Longrightarrow> outside_only s s'"
  by (auto simp: recvfrom_def outside_only_def split: list.splits if_splits)

lemma outside_socket_call: "socket_call s = (r, s') \<Longrightarrow> outside_only s s'"
  by (auto simp: socket_call_def Let_def outside_only_def split: if_splits)

lemma outside_accept_call: "accept_call fd s = (r, s') \<Longrightarrow> outside_only s s'"
  by (auto simp: accept_call_def outside_only_def split: list.splits prod.splits dest!: outside_socket_call)

lemma outside_os_call: "os_call call fd line s = (r, s') \<Longrightarrow> outside_only s s'"
  by (auto simp: os_call_def outside_only_def fprintf_stderr_def close_fd_def split: if_splits)

lemma outside_GetAddressString: "GetAddressString a s = (r, s') \<Longrightarrow> outside_only s s'"
  by (auto simp: GetAddressString_def outside_only_def fprintf_stderr_def split: if_splits option.splits)

lemma outside_IP_GetAddress: "IP_GetAddress c s = Some (r, s') \<Longrightarrow> outside_only s s'"
  by (auto simp: IP_GetAddress_def split: option.splits dest: outside_GetAddressString)
    (simp add: outside_only_def)

lemma outside_first_printable: "first_printable xs s = (r, s') \<Longrightarrow> outside_only s s'"
proof (induction xs arbitrary: s)
  case Nil
  then show ?case by (simp add: outside_only_def)
next
  case (Cons a xs)
  then show ?case
    by (fastforce split: prod.splits option.splits dest!: outside_GetAddressString
        simp: outside_only_def)
qed

lemma outside_LoadAddressInfo: "LoadAddressInfo h p r s = (x, s') \<Longrightarrow> outside_only s s'"
  by (auto simp: LoadAddressInfo_def fprintf_stderr_def split: if_splits option.splits
      dest: outside_first_printable) (simp_all add: outside_only_def)

lemma outside_CreateSocket: "CreateSocket pr a s = (x, s') \<Longrightarrow> outside_only s s'"
  by (auto simp: CreateSocket_def outside_only_def fprintf_stderr_def split: if_splits prod.splits
      dest!: outside_socket_call)

lemma outside_SetSocketConfig: "SetSocketConfig fd s = (x, s') \<Longrightarrow> outside_only s s'"
  by (auto simp: SetSocketConfig_def outside_only_def split: prod.splits bool.splits
      dest!: outside_os_call)

lemma outside_BindServerSocket: "BindServerSocket fd a s = (x, s') \<Longrightarrow> outside_only s s'"
  by (auto simp: BindServerSocket_def outside_only_def split: prod.splits bool.splits if_splits
      dest!: outside_os_call)

lemma outside_BindTCPServerSocket: "BindTCPServerSocket fd a s = (x, s') \<Longrightarrow> outside_only s s'"
  by (auto simp: BindTCPServerSocket_def outside_only_def split: prod.splits bool.splits if_splits
      dest!: outside_os_call outside_BindServerSocket)

lemma outside_BindUDPServerSocket: "BindUDPServerSocket fd a s = (x, s') \<Longrightarrow> outside_only s s'"
  by (auto simp: BindUDPServerSocket_def outside_only_def split: prod.splits bool.splits if_splits
      dest!: outside_os_call outside_BindServerSocket)

lemma outside_ConnectTCPClientSocket: "ConnectTCPClientSocket fd a s = (x, s') \<Longrightarrow> outside_only s s'"
  by (auto simp: ConnectTCPClientSocket_def dest: outside_os_call)

lemma outside_ConnectUDPClientSocket: "ConnectUDPClientSocket fd a s = (x, s') \<Longrightarrow> outside_only s s'"
  by (auto simp: ConnectUDPClientSocket_def outside_only_def split: prod.splits bool.splits if_splits
      dest!: outside_os_call)

lemma ipinv_AddConnection: "AddConnection fd a t r s = (p, s') \<Longrightarrow> ipinv s \<Longrightarrow> ipinv s'"
  by (auto simp: AddConnection_def Let_def ipinv_def lengths_bounded_def split: if_splits)

lemma ipinv_AddClient: "AddClient srv cl s = Some s' \<Longrightarrow> ipinv s \<Longrightarrow> ipinv s'"
  by (auto simp: AddClient_def Let_def ipinv_def lengths_bounded_def
      split: option.splits if_splits)

lemma ipinv_IP_OpenConnection: "IP_OpenConnection t h p s = (x, s') \<Longrightarrow> ipinv s \<Longrightarrow> ipinv s'"
  unfolding IP_OpenConnection_def
  by (auto split: prod.splits bool.splits if_splits option.splits
      dest!: outside_LoadAddressInfo outside_CreateSocket outside_SetSocketConfig
        outside_BindTCPServerSocket outside_BindUDPServerSocket outside_ConnectTCPClientSocket
        outside_ConnectUDPClientSocket ipinv_outside
      dest: ipinv_AddConnection)

lemma ipinv_IP_SetMessageLength: "IP_SetMessageLength c len s = Some (r, s') \<Longrightarrow> ipinv s \<Longrightarrow> ipinv s'"
  by (auto simp: IP_SetMessageLength_def Let_def ipinv_def lengths_bounded_def
      split: option.splits if_splits)

lemma ipinv_RemoveSocket [simp]: "ipinv (RemoveSocket fd s) = ipinv s"
  by (simp add: RemoveSocket_def)

lemma ipinv_buffer:
  "outside_only s s1 \<Longrightarrow> ipinv s \<Longrightarrow> heap s p = Some c \<Longrightarrow>
   ipinv (s1\<lparr>heap := (heap s1)(p \<mapsto> c\<lparr>buffer := b\<rparr>)\<rparr>)"
  by (auto simp: ipinv_def lengths_bounded_def wire_bounded_def outside_only_def)

lemma ipinv_ReceiveTCPMessage: "ReceiveTCPMessage c s = Some (r, s') \<Longrightarrow> ipinv s \<Longrightarrow> ipinv s'"
  unfolding ReceiveTCPMessage_def Let_def
  by (auto simp: ipinv_def lengths_bounded_def wire_bounded_def outside_only_def RemoveSocket_def
        fprintf_stderr_def close_fd_def
      split: option.splits if_splits prod.splits
      dest!: outside_recvfrom)

lemma ipinv_ReceiveUDPMessage: "ReceiveUDPMessage c s = Some (r, s') \<Longrightarrow> ipinv s \<Longrightarrow> ipinv s'"
  unfolding ReceiveUDPMessage_def Let_def
  by (auto simp: ipinv_def lengths_bounded_def wire_bounded_def outside_only_def
      split: option.splits if_splits prod.splits
      dest!: outside_recvfrom)

lemma ipinv_SendTCPMessage: "SendTCPMessage c m s = Some y \<Longrightarrow> ipinv s \<Longrightarrow> ipinv (snd y)"
  by (cases y) (auto simp: SendTCPMessage_def split: option.splits if_splits
      intro!: ipinv_sent dest: ipinv_lookup)

lemma ipinv_SendUDPMessage: "SendUDPMessage c m s = Some y \<Longrightarrow> ipinv s \<Longrightarrow> ipinv (snd y)"
  by (cases y) (auto simp: SendUDPMessage_def split: option.splits if_splits
      intro!: ipinv_sent dest: ipinv_lookup)

lemma ipinv_send_calls_aux:
  assumes "send_calls call m s = Some y"
  shows "ipinv s \<longrightarrow> ipinv (snd y)"
proof (rule send_calls.raw_induct [where P = "\<lambda>call m s y. ipinv s \<longrightarrow> ipinv (snd y)", OF _ assms], goal_cases)
  case (1 f call message s y)
  then show ?case
    by (cases y)
      (auto split: send_call.splits option.splits if_splits send_method.splits
        simp: Option.bind_eq_Some_conv
        dest: ipinv_SendTCPMessage ipinv_SendUDPMessage; blast)
qed

lemma ipinv_IP_SendMessage: "IP_SendMessage c m s = Some (r, s') \<Longrightarrow> ipinv s \<Longrightarrow> ipinv s'"
  unfolding IP_SendMessage_def by (drule ipinv_send_calls_aux) auto

lemma ipinv_AcceptTCPClient: "AcceptTCPClient srv s = Some (r, s') \<Longrightarrow> ipinv s \<Longrightarrow> ipinv s'"
  unfolding AcceptTCPClient_def
  by (auto split: option.splits if_splits prod.splits
      dest!: outside_accept_call ipinv_outside dest: ipinv_AddConnection ipinv_AddClient)

lemma ipinv_AcceptUDPClient: "AcceptUDPClient srv s = Some (r, s') \<Longrightarrow> ipinv s \<Longrightarrow> ipinv s'"
  unfolding AcceptUDPClient_def
  by (auto split: option.splits if_splits prod.splits bool.splits
      dest!: outside_recvfrom ipinv_outside dest: ipinv_AddConnection ipinv_AddClient)

lemma ipinv_buffer0:
  "ipinv s \<Longrightarrow> heap s p = Some c \<Longrightarrow> ipinv (s\<lparr>heap := (heap s)(p \<mapsto> c\<lparr>buffer := b\<rparr>)\<rparr>)"
  by (auto simp: ipinv_def lengths_bounded_def)

lemma ipinv_IP_ReceiveMessage: "IP_ReceiveMessage c s = Some (r, s') \<Longrightarrow> ipinv s \<Longrightarrow> ipinv s'"
  unfolding IP_ReceiveMessage_def Let_def
  by (auto split: option.splits receive_method.splits
      dest!: ipinv_ReceiveTCPMessage ipinv_ReceiveUDPMessage
      intro: ipinv_buffer0)

lemma ipinv_IP_AcceptClient: "IP_AcceptClient c s = Some (r, s') \<Longrightarrow> ipinv s \<Longrightarrow> ipinv s'"
  unfolding IP_AcceptClient_def
  by (auto split: option.splits receive_method.splits
      dest: ipinv_AcceptTCPClient ipinv_AcceptUDPClient)

lemma ipinv_IP_WaitEvent: "IP_WaitEvent s = (r, s') \<Longrightarrow> ipinv s \<Longrightarrow> ipinv s'"
  by (auto simp: IP_WaitEvent_def split: if_splits)

lemma ipinv_CloseTCPServer: "CloseTCPServer p s = Some s' \<Longrightarrow> ipinv s \<Longrightarrow> ipinv s'"
  by (auto simp: CloseTCPServer_def split: option.splits intro!: ipinv_free)

lemma ipinv_CloseUDPServer: "CloseUDPServer p s = Some s' \<Longrightarrow> ipinv s \<Longrightarrow> ipinv s'"
  by (auto simp: CloseUDPServer_def split: option.splits if_splits intro!: ipinv_free)

lemma ipinv_RemoveClient: "RemoveClient srv cl s = Some s' \<Longrightarrow> ipinv s \<Longrightarrow> ipinv s'"
  by (auto simp: RemoveClient_def ipinv_def lengths_bounded_def split: option.splits if_splits)

lemma ipinv_CloseTCPClient: "CloseTCPClient p s = Some s' \<Longrightarrow> ipinv s \<Longrightarrow> ipinv s'"
  by (auto simp: CloseTCPClient_def split: option.splits intro!: ipinv_free dest: ipinv_RemoveClient)

lemma ipinv_CloseUDPClient: "CloseUDPClient p s = Some s' \<Longrightarrow> ipinv s \<Longrightarrow> ipinv s'"
  by (auto simp: CloseUDPClient_def split: option.splits if_splits intro!: ipinv_free
      dest: ipinv_RemoveClient ipinv_CloseUDPServer)

lemma ipinv_IP_CloseConnection: "IP_CloseConnection c s = Some s' \<Longrightarrow> ipinv s \<Longrightarrow> ipinv s'"
  by (auto simp: IP_CloseConnection_def split: option.splits close_method.splits
      dest: ipinv_CloseTCPServer ipinv_CloseUDPServer ipinv_CloseTCPClient ipinv_CloseUDPClient)


section \<open>The invariant of a run\<close>

lemma queue_ok_Create [simp]: "queue_ok (TSQ_Create QUEUE_MAX_ITEMS n)"
  by (simp add: queue_ok_def TSQ_Create_def)

lemma queue_ok_Enqueue: "TSQ_Enqueue q item mode = Some q' \<Longrightarrow> queue_ok q \<Longrightarrow> queue_ok q'"
  by (auto simp: TSQ_Enqueue_def queue_ok_def QUEUE_MAX_ITEMS_def split: if_splits TSQ_mode.splits)

lemma queue_ok_Dequeue: "TSQ_Dequeue q mode = Some (item, q') \<Longrightarrow> queue_ok q \<Longrightarrow> queue_ok q'"
  by (auto simp: TSQ_Dequeue_def queue_ok_def split: list.splits)

lemma queue_ok_Discard [simp]: "queue_ok q \<Longrightarrow> queue_ok (TSQ_Discard q)"
  by (simp add: TSQ_Discard_def queue_ok_def)

lemma queues_ok_None [simp]: "queues_ok None"
  by (simp add: queues_ok_def)

lemma queues_ok_Acquire:
  "TSM_AcquireItem m k = Some c \<Longrightarrow> queues_ok m \<Longrightarrow> queue_ok (readQueue c) \<and> queue_ok (writeQueue c)"
  by (auto simp: TSM_AcquireItem_def queues_ok_def split: option.splits dest!: map_of_SomeD)

lemma queues_ok_Remove: "queues_ok m \<Longrightarrow> queues_ok (TSM_RemoveItem m k)"
  by (auto simp: TSM_RemoveItem_def queues_ok_def split: option.splits)

lemma queues_ok_update:
  "queues_ok m \<Longrightarrow>
   (\<And>e. queue_ok (readQueue e) \<Longrightarrow> queue_ok (writeQueue e) \<Longrightarrow>
      queue_ok (readQueue (f e)) \<and> queue_ok (writeQueue (f e))) \<Longrightarrow>
   queues_ok (TSM_update m k f)"
  by (auto simp: TSM_update_def queues_ok_def split: option.splits if_splits)

lemma queues_ok_SetItem:
  "TSM_SetItem d v = (k, d') \<Longrightarrow> queues_ok (Some d) \<Longrightarrow> queue_ok (readQueue v) \<Longrightarrow>
   queue_ok (writeQueue v) \<Longrightarrow> queues_ok (Some d')"
  by (auto simp: TSM_SetItem_def queues_ok_def)

lemma Inv_AddAsyncConnection: "AddAsyncConnection base s = Some (k, s') \<Longrightarrow> Inv s \<Longrightarrow> Inv s'"
  unfolding AddAsyncConnection_def Let_def
  by (auto simp: Inv_def TSM_Create_def queues_ok_def TSM_SetItem_def
      split: option.splits if_splits prod.splits)

lemma Inv_fprintf [simp]: "Inv (fprintf_stderr_async line s) = Inv s"
  by (simp add: Inv_def fprintf_stderr_async_def)

lemma Inv_AsyncIP_OpenConnection:
  "AsyncIP_OpenConnection t h p s = Some (k, s') \<Longrightarrow> Inv s \<Longrightarrow> Inv s'"
  unfolding AsyncIP_OpenConnection_def
  by (auto split: prod.splits option.splits dest!: ipinv_IP_OpenConnection
      dest: Inv_AddAsyncConnection simp: Inv_def fprintf_stderr_async_def)

lemma Inv_AsyncIP_GetAddress: "AsyncIP_GetAddress k s = Some (r, s') \<Longrightarrow> Inv s \<Longrightarrow> Inv s'"
  unfolding AsyncIP_GetAddress_def
  by (auto split: option.splits dest!: outside_IP_GetAddress ipinv_outside simp: Inv_def)

lemma Inv_AsyncIP_GetActivesNumber [simp]: "Inv (snd (AsyncIP_GetActivesNumber s)) = Inv s"
  by (simp add: AsyncIP_GetActivesNumber_def Let_def Inv_def)

lemma Inv_AsyncIP_SetMessageLength:
  "AsyncIP_SetMessageLength k len s = Some (r, s') \<Longrightarrow> Inv s \<Longrightarrow> Inv s'"
  unfolding AsyncIP_SetMessageLength_def
  by (auto split: option.splits dest!: ipinv_IP_SetMessageLength simp: Inv_def)

lemma queues_ok_read_update:
  "queues_ok m \<Longrightarrow> queue_ok q \<Longrightarrow> queues_ok (TSM_update m k (\<lambda>e. e\<lparr>readQueue := q\<rparr>))"
  by (rule queues_ok_update) auto

lemma queues_ok_write_update:
  "queues_ok m \<Longrightarrow> queue_ok q \<Longrightarrow> queues_ok (TSM_update m k (\<lambda>e. e\<lparr>writeQueue := q\<rparr>))"
  by (rule queues_ok_update) auto

lemma Inv_ReadToQueue:
  assumes "ReadToQueue k s = Some s'" and "Inv s"
  shows "Inv s'"
proof (cases "TSM_AcquireItem (globalConnectionsList s) k")
  case None
  with assms show ?thesis by (simp add: ReadToQueue_def)
next
  case (Some c)
  have q: "queue_ok (readQueue c)"
    using Some assms(2) queues_ok_Acquire by (auto simp: Inv_def)
  have enq: "\<And>item q'. TSQ_Enqueue (readQueue c) item TSQUEUE_WAIT = Some q' \<Longrightarrow> queue_ok q'"
    using q by (rule queue_ok_Enqueue [rotated])
  show ?thesis
    using assms Some
    unfolding ReadToQueue_def
    by (auto split: option.splits if_splits prod.splits
        simp: Option.bind_eq_Some_conv Inv_def
        dest!: ipinv_IP_AcceptClient ipinv_IP_ReceiveMessage outside_IP_GetAddress ipinv_outside
          Inv_AddAsyncConnection [unfolded Inv_def] enq
        intro!: queues_ok_read_update)
qed

lemma Inv_WriteFromQueue:
  assumes "WriteFromQueue k s = Some s'" and "Inv s"
  shows "Inv s'"
proof (cases "TSM_AcquireItem (globalConnectionsList s) k")
  case None
  with assms show ?thesis by (simp add: WriteFromQueue_def)
next
  case (Some c)
  have q: "queue_ok (writeQueue c)"
    using Some assms(2) queues_ok_Acquire by (auto simp: Inv_def)
  have deq: "\<And>item q'. TSQ_Dequeue (writeQueue c) TSQUEUE_WAIT = Some (item, q') \<Longrightarrow> queue_ok q'"
    using q by (rule queue_ok_Dequeue [rotated])
  show ?thesis
    using assms Some
    unfolding WriteFromQueue_def Let_def
    by (auto split: option.splits if_splits prod.splits
        simp: Option.bind_eq_Some_conv Inv_def
        dest!: ipinv_IP_SendMessage deq
        intro!: queues_ok_write_update queues_ok_Remove)
qed

lemma Inv_AsyncIP_ReadMessage:
  assumes "AsyncIP_ReadMessage k s = Some (r, s')" and "Inv s"
  shows "Inv s'"
proof (cases "TSM_AcquireItem (globalConnectionsList s) k")
  case None
  with assms show ?thesis by (simp add: AsyncIP_ReadMessage_def)
next
  case (Some c)
  have q: "queue_ok (readQueue c)"
    using Some assms(2) queues_ok_Acquire by (auto simp: Inv_def)
  have deq: "\<And>item q'. TSQ_Dequeue (readQueue c) TSQUEUE_WAIT = Some (item, q') \<Longrightarrow> queue_ok q'"
    using q by (rule queue_ok_Dequeue [rotated])
  show ?thesis
    using assms Some
    unfolding AsyncIP_ReadMessage_def
    by (auto split: option.splits if_splits prod.splits
        simp: Option.bind_eq_Some_conv Inv_def fprintf_stderr_async_def
        dest!: deq intro!: queues_ok_read_update)
qed

lemma Inv_AsyncIP_WriteMessage:
  assumes "AsyncIP_WriteMessage k m s = Some (r, s')" and "Inv s"
  shows "Inv s'"
proof (cases "TSM_AcquireItem (globalConnectionsList s) k")
  case None
  with assms show ?thesis by (simp add: AsyncIP_WriteMessage_def)
next
  case (Some c)
  have q: "queue_ok (writeQueue c)"
    using Some assms(2) queues_ok_Acquire by (auto simp: Inv_def)
  have enq: "\<And>item q'. TSQ_Enqueue (writeQueue c) item TSQUEUE_NOWAIT = Some q' \<Longrightarrow> queue_ok q'"
    using q by (rule queue_ok_Enqueue [rotated])
  show ?thesis
    using assms Some
    unfolding AsyncIP_WriteMessage_def Let_def
    by (auto split: option.splits if_splits prod.splits
        simp: Option.bind_eq_Some_conv Inv_def fprintf_stderr_async_def
        dest!: enq intro!: queues_ok_write_update)
qed

lemma Inv_AsyncIP_GetClient:
  assumes "AsyncIP_GetClient k s = Some (r, s')" and "Inv s"
  shows "Inv s'"
proof (cases "TSM_AcquireItem (globalConnectionsList s) k")
  case None
  with assms show ?thesis by (simp add: AsyncIP_GetClient_def)
next
  case (Some c)
  have q: "queue_ok (readQueue c)"
    using Some assms(2) queues_ok_Acquire by (auto simp: Inv_def)
  have deq: "\<And>item q'. TSQ_Dequeue (readQueue c) TSQUEUE_WAIT = Some (item, q') \<Longrightarrow> queue_ok q'"
    using q by (rule queue_ok_Dequeue [rotated])
  show ?thesis
    using assms Some
    unfolding AsyncIP_GetClient_def
    by (auto split: option.splits if_splits prod.splits
        simp: Option.bind_eq_Some_conv Inv_def fprintf_stderr_async_def
        dest!: deq intro!: queues_ok_read_update)
qed

lemma queues_ok_discard:
  "queues_ok m \<Longrightarrow>
   queues_ok (TSM_update m k (\<lambda>e. e\<lparr>baseConnection := None, readQueue := TSQ_Discard (readQueue e),
                                      writeQueue := TSQ_Discard (writeQueue e)\<rparr>))"
  by (rule queues_ok_update) auto

lemma Inv_AsyncIP_CloseConnection: "AsyncIP_CloseConnection k s = Some s' \<Longrightarrow> Inv s \<Longrightarrow> Inv s'"
  unfolding AsyncIP_CloseConnection_def Let_def
  by (auto split: option.splits if_splits prod.splits
      simp: Option.bind_eq_Some_conv Inv_def
      dest!: ipinv_IP_CloseConnection
      intro!: queues_ok_discard queues_ok_Remove)

lemma Inv_run_keys:
  "(\<And>k s s'. f k s = Some s' \<Longrightarrow> Inv s \<Longrightarrow> Inv s') \<Longrightarrow> run_keys f ks s = Some s' \<Longrightarrow> Inv s \<Longrightarrow> Inv s'"
  by (induction ks arbitrary: s) (auto simp: Option.bind_eq_Some_conv)

lemma Inv_AsyncReadQueues_body: "AsyncReadQueues_body s = Some s' \<Longrightarrow> Inv s \<Longrightarrow> Inv s'"
proof -
  assume a: "AsyncReadQueues_body s = Some s'" and i: "Inv s"
  obtain n ip1 where w: "IP_WaitEvent (ip s) = (n, ip1)" by (cases "IP_WaitEvent (ip s)")
  have i1: "Inv (s\<lparr>ip := ip1\<rparr>)"
    using i ipinv_IP_WaitEvent [OF w] by (simp add: Inv_def)
  show ?thesis
    using a w i1 Inv_run_keys [of ReadToQueue _ "s\<lparr>ip := ip1\<rparr>" s', OF Inv_ReadToQueue]
    by (auto simp: AsyncReadQueues_body_def TSM_RunForAllKeys_def split: if_splits)
qed

lemma Inv_AsyncWriteQueues_body: "AsyncWriteQueues_body s = Some s' \<Longrightarrow> Inv s \<Longrightarrow> Inv s'"
  unfolding AsyncWriteQueues_body_def TSM_RunForAllKeys_def
  by (rule Inv_run_keys [of WriteFromQueue, OF Inv_WriteFromQueue])

lemma Inv_Platform [simp]: "Inv (s\<lparr>ip := (ip s)\<lparr>os := x\<rparr>\<rparr>) = Inv s"
  by (simp add: Inv_def)

lemma Inv_thread_updates [simp]:
  "Inv (s\<lparr>globalReadThread := t\<rparr>) = Inv s"
  "Inv (s\<lparr>globalWriteThread := t\<rparr>) = Inv s"
  by (simp_all add: Inv_def)

lemma Inv_step: "step e s = Some s' \<Longrightarrow> Inv s \<Longrightarrow> Inv s'"
  by (cases e)
    (auto dest: Inv_AsyncIP_OpenConnection Inv_AsyncIP_CloseConnection Inv_AsyncIP_GetAddress
      Inv_AsyncIP_SetMessageLength Inv_AsyncIP_ReadMessage Inv_AsyncIP_WriteMessage
      Inv_AsyncIP_GetClient Inv_AsyncReadQueues_body Inv_AsyncWriteQueues_body
      split: if_splits)

lemma Inv_run: "run es s = Some s' \<Longrightarrow> Inv s \<Longrightarrow> Inv s'"
  by (induction es arbitrary: s) (auto simp: Option.bind_eq_Some_conv dest: Inv_step)

lemma Inv_initial: "Inv (initial_state legacy platform)"
  by (simp add: Inv_def initial_state_def ipinv_def lengths_bounded_def wire_bounded_def)


section \<open>The claims, evaluated on the example platforms\<close>

lemmas open_defs = AsyncIP_OpenConnection_def IP_OpenConnection_def LoadAddressInfo_def CreateSocket_def
  SetSocketConfig_def BindServerSocket_def BindTCPServerSocket_def BindUDPServerSocket_def
  ConnectTCPClientSocket_def ConnectUDPClientSocket_def AddConnection_def AddAsyncConnection_def
  os_call_def socket_call_def GetAddressString_def IP_IsServer_def TSM_SetItem_def TSM_Create_def
  TSQ_Create_def Thread_Start_def fprintf_stderr_def fprintf_stderr_async_def close_fd_def
  IP_TCP_def IP_UDP_def IP_SERVER_def IP_CLIENT_def ROLE_MASK_def TRANSPORT_MASK_def INVALID_SOCKET_def
  IS_IP_MULTICAST_ADDRESS_def IS_IPV4_MULTICAST_ADDRESS_def IS_IPV6_MULTICAST_ADDRESS_def
  IP_MAX_MESSAGE_LENGTH_def QUEUE_MAX_ITEMS_def first_printable.simps INADDR_ANY_def

lemmas reader_defs = AsyncReadQueues_body_def IP_WaitEvent_def TSM_RunForAllKeys_def TSM_keys_def
  ReadToQueue_def TSM_AcquireItem_def TSQ_GetItemsCount_def IP_IsDataAvailable_def
  IP_ReceiveMessage_def ReceiveUDPMessage_def ReceiveTCPMessage_def recvfrom_def 
  ARE_EQUAL_IP_ADDRESSES_def ARE_EQUAL_IPV4_ADDRESSES_def ARE_EQUAL_IPV6_ADDRESSES_def
  TSQ_Enqueue_def TSM_update_def IP_AcceptClient_def AcceptUDPClient_def AcceptTCPClient_def
  AcceptUDPClient_scan.simps AddClient_def AddClient_scan.simps IP_GetAddress_def accept_call_def

lemmas writer_defs = AsyncIP_WriteMessage_def AsyncWriteQueues_body_def WriteFromQueue_def
  TSQ_Dequeue_def IP_SendMessage_def send_calls.simps SendTCPMessage_def SendUDPMessage_def
  strlen_def TSM_RemoveItem_def TSM_GetItemsCount_def TSM_GetItem_def

lemmas close_defs = AsyncIP_CloseConnection_def IP_CloseConnection_def CloseTCPServer_def
  CloseUDPServer_def CloseTCPClient_def CloseUDPClient_def RemoveClient_def RemoveClient_scan.simps
  RemoveSocket_def free_def TSQ_Discard_def Thread_WaitExit_def

lemmas run_defs = open_defs reader_defs writer_defs close_defs AsyncIP_GetActivesNumber_def
  AsyncIP_SetMessageLength_def IP_SetMessageLength_def AsyncIP_ReadMessage_def AsyncIP_GetClient_def
  AsyncIP_GetAddress_def AsyncIP_GetClientsNumber_def IP_GetClientsNumber_def

lemmas example_defs = initial_state_def platform_ok_def peer_A_def peer_B_def peer_C_def
  delivering_def platform_multicast_def send_failing_def ten_datagrams_def full_queues_run_def
  connecting_def

text \<open>
  Claim C1 (workers run exactly while the registry is non-empty), evaluated where the
  code leaves it. A UDP client is opened, one message is written, \<^verbatim>\<open>sendto\<close>
  starts to fail and the writer worker makes one pass: \<^verbatim>\<open>WriteFromQueue\<close> removes the
  entry with \<^verbatim>\<open>TSM_RemoveItem\<close> and returns, so the registry holds no connection
  while both workers still run. On the sibling path, \<^verbatim>\<open>AsyncIP_CloseConnection\<close> in
  the same state, the registry empties and both workers are stopped.
\<close>
theorem C1_eviction_leaves_workers_running:
  "map_option (\<lambda>s. (TSM_GetItemsCount (globalConnectionsList s), workers_running s, workers_stopped s))
     (run [OpenConnection 0x22 (Some ''10.0.0.1'') 50000, WriteMessage 0 ''hello'',
           Platform (send_failing platform_ok), WriterIteration]
        (initial_state False platform_ok)) = Some (0, True, False) \<and>
   map_option (\<lambda>s. (TSM_GetItemsCount (globalConnectionsList s), workers_running s, workers_stopped s))
     (run [OpenConnection 0x22 (Some ''10.0.0.1'') 50000, WriteMessage 0 ''hello'',
           Platform (send_failing platform_ok), CloseConnection 0]
        (initial_state False platform_ok)) = Some (0, False, True)"
  by (simp add: example_defs run_defs same_peer_def workers_running_def workers_stopped_def
      IP_CONNECTION_INVALID_ID_def)

text \<open>
  Claim C3 (a UDP client consumes a datagram only when its source address equals the
  configured remote address), evaluated where the code leaves it. A UDP client is
  opened towards 10.0.0.1:50000 and a datagram from 10.0.0.2:50000 arrives:
  \<^verbatim>\<open>ARE_EQUAL_IPV4_ADDRESSES\<close> compares the family and the port only, so
  \<^verbatim>\<open>ReceiveUDPMessage\<close> returns the bytes, and after one pass of the reader worker
  the read queue of the client holds the datagram of the other host.
\<close>
theorem C3_ipv4_datagram_of_other_host_delivered:
  "\<not> same_peer peer_A peer_B \<and>
   Option.bind
     (run [OpenConnection 0x22 (Some ''10.0.0.1'') 50000, Platform (delivering 3 peer_B ''intruder'')]
        (initial_state False platform_ok))
     (\<lambda>s. map_option (\<lambda>c. (addressData c, map_option fst (ReceiveUDPMessage 1 (ip s)))) (heap (ip s) 1))
   = Some (peer_A, Some (Some ''intruder'')) \<and>
   Option.bind
     (run [OpenConnection 0x22 (Some ''10.0.0.1'') 50000, Platform (delivering 3 peer_B ''intruder''),
           ReaderIteration]
        (initial_state False platform_ok))
     (\<lambda>s. map_option (\<lambda>e. queued (readQueue e)) (TSM_AcquireItem (globalConnectionsList s) 0))
   = Some [''intruder'']"
  by (simp add: example_defs run_defs same_peer_def workers_running_def workers_stopped_def
      IP_CONNECTION_INVALID_ID_def)

text \<open>
  Claim C4 (a datagram from an unseen source address produces exactly one new
  pseudo-client), evaluated where the code leaves it. A UDP server bound to the IPv4
  host 10.0.0.1 has one pseudo-client, for 10.0.0.2:50000, and a datagram from 10.0.0.3:50000 arrives: the
  port-only comparison of \<^verbatim>\<open>ARE_EQUAL_IPV4_ADDRESSES\<close> takes the source for the
  client already listed, and \<^verbatim>\<open>AcceptUDPClient\<close> returns \<^verbatim>\<open>NULL\<close>.
\<close>
theorem C4_unseen_ipv4_source_gets_no_client:
  "\<not> same_peer peer_B peer_C \<and>
   Option.bind
     (run [OpenConnection 0x21 (Some ''10.0.0.1'') 50000, Platform (delivering 3 peer_B ''ping''),
           ReaderIteration, Platform (delivering 3 peer_C ''pong'')]
        (initial_state False platform_ok))
     (\<lambda>s. map_option
        (\<lambda>sv. (map (\<lambda>p. Option.bind p (\<lambda>q. map_option addressData (heap (ip s) q))) (clientsList sv),
               map_option fst (AcceptUDPClient 1 (ip s))))
        (heap (ip s) 1))
   = Some ([Some peer_B], Some None)"
  by (simp add: example_defs run_defs same_peer_def workers_running_def workers_stopped_def
      IP_CONNECTION_INVALID_ID_def)

text \<open>
  Claim C7 (\<^verbatim>\<open>AsyncIP_GetActivesNumber\<close> returns the number of registered
  connections, 0 after the last Close), evaluated where the code leaves it. The
  counter is \<^verbatim>\<open>static\<close> and never reset: after Open, GetActivesNumber, Close, the
  registry is empty and the next call returns 1; with one connection open, the second
  call returns 2.
\<close>
theorem C7_static_counter_accumulates:
  "Option.bind
     (run [OpenConnection 0x22 (Some ''10.0.0.1'') 50000, GetActivesNumber, CloseConnection 0]
        (initial_state False platform_ok))
     (\<lambda>s. Some (TSM_GetItemsCount (globalConnectionsList s), fst (AsyncIP_GetActivesNumber s)))
   = Some (0, 1) \<and>
   Option.bind
     (run [OpenConnection 0x22 (Some ''10.0.0.1'') 50000, GetActivesNumber]
        (initial_state False platform_ok))
     (\<lambda>s. Some (TSM_GetItemsCount (globalConnectionsList s), fst (AsyncIP_GetActivesNumber s)))
   = Some (1, 2)"
  by (simp add: example_defs run_defs same_peer_def workers_running_def workers_stopped_def
      IP_CONNECTION_INVALID_ID_def)

text \<open>
  Claim C6 (a \<^verbatim>\<open>NULL\<close> host fails for a client role), evaluated where the code
  leaves it. The legacy branch (\<^verbatim>\<open>IP_NETWORK_LEGACY\<close>) of \<^verbatim>\<open>LoadAddressInfo\<close>
  takes a \<^verbatim>\<open>NULL\<close> host as \<^verbatim>\<open>INADDR_ANY\<close> without the test of the role that
  the other branch of the same function makes: in the legacy build, opening a UDP
  client with a \<^verbatim>\<open>NULL\<close> host registers a connection and returns the identifier
  0. On the sibling path, the same call in the default build,
  \<^verbatim>\<open>LoadAddressInfo\<close> returns \<^verbatim>\<open>NULL\<close> and the facade
  \<^verbatim>\<open>IP_CONNECTION_INVALID_ID\<close>.
\<close>
theorem C6_legacy_null_host_client_opens:
  "map_option (\<lambda>r. (fst r, TSM_GetItemsCount (globalConnectionsList (snd r))))
     (AsyncIP_OpenConnection (IP_UDP OR IP_CLIENT) None 50000 (initial_state True platform_ok))
     = Some (0, 1) \<and>
   (0 :: nat) \<noteq> IP_CONNECTION_INVALID_ID \<and>
   fst (LoadAddressInfo None 50000 IP_CLIENT (ip (initial_state True platform_ok)))
     = Some \<lparr>sa_family = AF_INET, sin_port = 50000, sin_addr = INADDR_ANY, sin6_addr = []\<rparr> \<and>
   map_option (\<lambda>r. (fst r, TSM_GetItemsCount (globalConnectionsList (snd r))))
     (AsyncIP_OpenConnection (IP_UDP OR IP_CLIENT) None 50000 (initial_state False platform_ok))
     = Some (IP_CONNECTION_INVALID_ID, 0) \<and>
   fst (LoadAddressInfo None 50000 IP_CLIENT (ip (initial_state False platform_ok))) = None"
  by (simp add: example_defs run_defs same_peer_def workers_running_def workers_stopped_def
      IP_CONNECTION_INVALID_ID_def)

text \<open>
  Claim C9 (\<^verbatim>\<open>AsyncIP_ReadMessage\<close> returns \<^verbatim>\<open>NULL\<close> for every identifier that
  does not name a client with a non-empty read queue, with a diagnostic for a server),
  evaluated where the code leaves it. A UDP server bound to 10.0.0.1 gets its first
  pseudo-client (identifier 1) from a datagram, and the pseudo-client is closed:
  \<^verbatim>\<open>CloseUDPClient\<close> finds the client count at 0 and calls \<^verbatim>\<open>CloseUDPServer\<close>,
  which frees the server structure, while the registry keeps the entry of the server
  (identifier 0) with its base connection pointing to the freed structure.
  \<^verbatim>\<open>AsyncIP_ReadMessage( 0 )\<close> then calls \<^verbatim>\<open>IP_IsServer\<close> on freed memory and has
  no defined result (\<open>None\<close>). Before the close, the same call returns \<^verbatim>\<open>NULL\<close>
  and writes its diagnostic, the only line on \<^verbatim>\<open>stderr\<close>.
\<close>
theorem C9_ReadMessage_of_freed_server:
  "Option.bind
     (run [OpenConnection 0x21 (Some ''10.0.0.1'') 50000, Platform (delivering 3 peer_B ''ping''),
           ReaderIteration, CloseConnection 1]
        (initial_state False platform_ok))
     (\<lambda>s. Some (TSM_GetItem (globalConnectionsList s) 0,
                 map_option baseConnection (TSM_AcquireItem (globalConnectionsList s) 0),
                 heap (ip s) 1, AsyncIP_ReadMessage 0 s))
   = Some (True, Some (Some 1), None, None) \<and>
   Option.bind
     (run [OpenConnection 0x21 (Some ''10.0.0.1'') 50000, Platform (delivering 3 peer_B ''ping''),
           ReaderIteration]
        (initial_state False platform_ok))
     (\<lambda>s. Some (TSM_keys (globalConnectionsList s), stderr (ip s),
                 map_option (\<lambda>r. (fst r, stderr (ip (snd r)))) (AsyncIP_ReadMessage 0 s)))
   = Some ([0, 1], [], Some (None, [''connection index %lu is not of a client connection'']))"
  by (simp add: example_defs run_defs same_peer_def workers_running_def workers_stopped_def
      IP_CONNECTION_INVALID_ID_def)

text \<open>
  Claim C8 as stated fails for the requested length 0: after
  \<^verbatim>\<open>SetMessageLength( id, 0 )\<close> the bound of the connection is 0, outside
  1...\<^verbatim>\<open>IP_MAX_MESSAGE_LENGTH\<close>.
\<close>
theorem C8_zero_length_counterexample:
  "map_option
     (\<lambda>s. map_option (\<lambda>c. 1 \<le> messageLength c \<and> messageLength c \<le> IP_MAX_MESSAGE_LENGTH) (heap (ip s) 1))
     (run [OpenConnection 0x22 (Some ''10.0.0.1'') 50000, SetMessageLength 0 0]
        (initial_state False platform_ok))
   = Some (Some False)"
  by (simp add: example_defs run_defs same_peer_def workers_running_def workers_stopped_def
      IP_CONNECTION_INVALID_ID_def)

text \<open>
  Claim C10 as stated fails for a UDP server on a multicast address, whose send method
  is \<^verbatim>\<open>SendUDPMessage\<close>: with a UDP server opened on the host 224.0.0.1 and
  \<^verbatim>\<open>sendto\<close> failing, \<^verbatim>\<open>IP_SendMessage\<close> on the server connection returns -1, and one pass of
  the writer worker removes the server from the registry.
\<close>
theorem C10_multicast_server_counterexample:
  "Option.bind
     (run [OpenConnection 0x21 (Some ''224.0.0.1'') 50000, WriteMessage 0 ''hello'',
           Platform (send_failing platform_multicast)]
        (initial_state False platform_multicast))
     (\<lambda>s. Some (IP_IsServer (Some 1) (ip s), map_option fst (IP_SendMessage 1 ''hello'' (ip s)),
                 TSM_GetItem (globalConnectionsList s) 0,
                 map_option (\<lambda>s'. TSM_GetItem (globalConnectionsList s') 0) (step WriterIteration s)))
   = Some (Some True, Some (- 1), True, Some False)"
  by (simp add: example_defs run_defs same_peer_def workers_running_def workers_stopped_def
      IP_CONNECTION_INVALID_ID_def)


section \<open>The claims that hold in general\<close>

lemma map_of_update:
  "map_of (map (\<lambda>(k', v). if k' = k then (k', f v) else (k', v)) xs) k'' =
     (if k'' = k then map_option f (map_of xs k'') else map_of xs k'')"
  by (induction xs) auto

lemma TSM_Acquire_update:
  "TSM_AcquireItem (TSM_update m k f) k' =
     (if k' = k then map_option f (TSM_AcquireItem m k') else TSM_AcquireItem m k')"
  by (cases m) (simp_all add: TSM_AcquireItem_def TSM_update_def map_of_update)

lemma ReadMessage_unknown:
  "TSM_AcquireItem (globalConnectionsList s) clientID = None \<Longrightarrow>
   AsyncIP_ReadMessage clientID s = Some (None, s)"
  by (simp add: AsyncIP_ReadMessage_def)

lemma ReadMessage_server:
  "TSM_AcquireItem (globalConnectionsList s) clientID = Some client \<Longrightarrow>
   IP_IsServer (baseConnection client) (ip s) = Some True \<Longrightarrow>
   AsyncIP_ReadMessage clientID s =
     Some (None,
           s\<lparr>ip := (ip s)\<lparr>stderr := stderr (ip s) @
                    [''connection index %lu is not of a client connection'']\<rparr>\<rparr>)"
  by (simp add: AsyncIP_ReadMessage_def fprintf_stderr_async_def fprintf_stderr_def)

lemma ReadMessage_empty:
  "TSM_AcquireItem (globalConnectionsList s) clientID = Some client \<Longrightarrow>
   IP_IsServer (baseConnection client) (ip s) = Some False \<Longrightarrow>
   queued (readQueue client) = [] \<Longrightarrow>
   AsyncIP_ReadMessage clientID s = Some (None, s)"
  by (simp add: AsyncIP_ReadMessage_def TSQ_GetItemsCount_def)

lemma ReadMessage_oldest:
  "TSM_AcquireItem (globalConnectionsList s) clientID = Some client \<Longrightarrow>
   IP_IsServer (baseConnection client) (ip s) = Some False \<Longrightarrow>
   queued (readQueue client) = message # rest \<Longrightarrow>
   AsyncIP_ReadMessage clientID s =
     Some (Some message,
           s\<lparr>globalConnectionsList :=
               TSM_update (globalConnectionsList s) clientID
                 (\<lambda>e. e\<lparr>readQueue := (readQueue client)\<lparr>queued := rest\<rparr>\<rparr>)\<rparr>)"
  by (simp add: AsyncIP_ReadMessage_def TSQ_GetItemsCount_def TSQ_Dequeue_def)

text \<open>
  The cases of \<^verbatim>\<open>AsyncIP_ReadMessage\<close> on an identifier that is unknown or whose
  base connection is \<^verbatim>\<open>NULL\<close> or allocated (\<^verbatim>\<open>IP_IsServer\<close> then has a result). It
  returns \<^verbatim>\<open>NULL\<close> when the identifier is unknown, when it names a server
  connection (one line is appended to \<^verbatim>\<open>stderr\<close>) and when it names a client whose
  read queue is empty; when it names a client whose read queue is not empty it returns
  the oldest message, which leaves the queue, and nothing else changes.
\<close>
lemma AsyncIP_ReadMessage_cases:
  "(TSM_AcquireItem (globalConnectionsList s) clientID = None \<longrightarrow>
      AsyncIP_ReadMessage clientID s = Some (None, s)) \<and>
   (TSM_AcquireItem (globalConnectionsList s) clientID = Some client \<and>
    IP_IsServer (baseConnection client) (ip s) = Some True \<longrightarrow>
      AsyncIP_ReadMessage clientID s =
        Some (None,
              s\<lparr>ip := (ip s)\<lparr>stderr := stderr (ip s) @
                       [''connection index %lu is not of a client connection'']\<rparr>\<rparr>)) \<and>
   (TSM_AcquireItem (globalConnectionsList s) clientID = Some client \<and>
    IP_IsServer (baseConnection client) (ip s) = Some False \<and>
    queued (readQueue client) = [] \<longrightarrow>
      AsyncIP_ReadMessage clientID s = Some (None, s)) \<and>
   (TSM_AcquireItem (globalConnectionsList s) clientID = Some client \<and>
    IP_IsServer (baseConnection client) (ip s) = Some False \<and>
    queued (readQueue client) = message # rest \<longrightarrow>
      (\<exists>s'. AsyncIP_ReadMessage clientID s = Some (Some message, s') \<and>
            ip s' = ip s \<and>
            map_option (\<lambda>e. queued (readQueue e)) (TSM_AcquireItem (globalConnectionsList s') clientID)
              = Some rest))"
  using ReadMessage_unknown [of s clientID] ReadMessage_server [of s clientID client]
    ReadMessage_empty [of s clientID client] ReadMessage_oldest [of s clientID client message rest]
  by (auto simp: TSM_Acquire_update)

text \<open>The four cases on the example platform: an unknown identifier, a UDP server
  (the diagnostic is the only line on \<^verbatim>\<open>stderr\<close>), a UDP client that received
  nothing, and the client of \<open>full_queues_run\<close>, whose oldest message is \<open>m0\<close>.\<close>
lemma AsyncIP_ReadMessage_cases_example:
  "AsyncIP_ReadMessage 7 (initial_state False platform_ok) = Some (None, initial_state False platform_ok) \<and>
   map_option (\<lambda>r. (fst r, stderr (ip (snd r))))
     (AsyncIP_ReadMessage 0
        (the (run [OpenConnection 0x21 (Some ''10.0.0.1'') 50000] (initial_state False platform_ok))))
     = Some (None, [''connection index %lu is not of a client connection'']) \<and>
   map_option fst
     (AsyncIP_ReadMessage 0
        (the (run [OpenConnection 0x22 (Some ''10.0.0.1'') 50000] (initial_state False platform_ok))))
     = Some None \<and>
   map_option fst
     (AsyncIP_ReadMessage 0 (the (run full_queues_run (initial_state False platform_ok))))
     = Some (Some ''m0'')"
proof -
  define s0 where "s0 = initial_state False platform_ok"
  define s1 where "s1 = the (run [OpenConnection 0x21 (Some ''10.0.0.1'') 50000] s0)"
  define s2 where "s2 = the (run [OpenConnection 0x22 (Some ''10.0.0.1'') 50000] s0)"
  define s3 where "s3 = the (run full_queues_run s0)"
  define c1 where "c1 = the (TSM_AcquireItem (globalConnectionsList s1) 0)"
  define c2 where "c2 = the (TSM_AcquireItem (globalConnectionsList s2) 0)"
  define c3 where "c3 = the (TSM_AcquireItem (globalConnectionsList s3) 0)"
  have h0: "TSM_AcquireItem (globalConnectionsList s0) 7 = None"
    by (simp add: s0_def example_defs TSM_AcquireItem_def)
  have h1: "TSM_AcquireItem (globalConnectionsList s1) 0 = Some c1 \<and>
            IP_IsServer (baseConnection c1) (ip s1) = Some True \<and> stderr (ip s1) = []"
    by (simp add: c1_def s1_def s0_def example_defs run_defs)
  have h2: "TSM_AcquireItem (globalConnectionsList s2) 0 = Some c2 \<and>
            IP_IsServer (baseConnection c2) (ip s2) = Some False \<and> queued (readQueue c2) = []"
    by (simp add: c2_def s2_def s0_def example_defs run_defs)
  have h3: "TSM_AcquireItem (globalConnectionsList s3) 0 = Some c3 \<and>
            IP_IsServer (baseConnection c3) (ip s3) = Some False \<and>
            queued (readQueue c3) = ''m0'' # [''m1'', ''m2'', ''m3'', ''m4'', ''m5'', ''m6'', ''m7'', ''m8'', ''m9'']"
    by (simp add: c3_def s3_def s0_def example_defs run_defs)
  from AsyncIP_ReadMessage_cases [of s0 7] h0
  have r0: "AsyncIP_ReadMessage 7 s0 = Some (None, s0)" by blast
  from AsyncIP_ReadMessage_cases [of s1 0 c1] h1
  have r1: "map_option (\<lambda>r. (fst r, stderr (ip (snd r)))) (AsyncIP_ReadMessage 0 s1)
              = Some (None, [''connection index %lu is not of a client connection''])" by simp
  from AsyncIP_ReadMessage_cases [of s2 0 c2] h2
  have r2: "map_option fst (AsyncIP_ReadMessage 0 s2) = Some None" by simp
  from AsyncIP_ReadMessage_cases [of s3 0 c3 "''m0''" "[''m1'', ''m2'', ''m3'', ''m4'', ''m5'', ''m6'', ''m7'', ''m8'', ''m9'']"] h3
  have r3: "map_option fst (AsyncIP_ReadMessage 0 s3) = Some (Some ''m0'')" by auto
  from r0 r1 r2 r3 show ?thesis
    unfolding s0_def s1_def s2_def s3_def by blast
qed

lemma SetMessageLength_min:
  "heap s p = Some c \<Longrightarrow>
   IP_SetMessageLength (Some p) len s =
     Some (min len IP_MAX_MESSAGE_LENGTH,
           s\<lparr>heap := (heap s)(p \<mapsto> c\<lparr>messageLength := min len IP_MAX_MESSAGE_LENGTH\<rparr>)\<rparr>)"
  by (simp add: IP_SetMessageLength_def IP_MAX_MESSAGE_LENGTH_def min_def)

lemma AddConnection_default_length:
  "map_option messageLength
     (heap (snd (AddConnection socketFD address transportProtocol networkRole s))
        (fst (AddConnection socketFD address transportProtocol networkRole s)))
   = Some IP_MAX_MESSAGE_LENGTH"
  by (simp add: AddConnection_def Let_def)

lemma reachable_Inv: "run events (initial_state legacy platform) = Some s \<Longrightarrow> Inv s"
  by (erule Inv_run) (rule Inv_initial)

text \<open>
  Claim C8, amended: every connection's message length bound lies in
  0...\<^verbatim>\<open>IP_MAX_MESSAGE_LENGTH\<close> (512) at all times, with the default 512 at creation;
  for every existing connection and every requested length \<open>len\<close>,
  \<^verbatim>\<open>IP_SetMessageLength\<close> sets the bound to \<open>min len 512\<close> and returns it, and so
  does \<^verbatim>\<open>AsyncIP_SetMessageLength\<close> for a registered connection.
\<close>
theorem C8_message_length_bound:
  "map_option messageLength
     (heap (snd (AddConnection socketFD address transportProtocol networkRole s0))
        (fst (AddConnection socketFD address transportProtocol networkRole s0)))
     = Some IP_MAX_MESSAGE_LENGTH \<and>
   IP_MAX_MESSAGE_LENGTH = 512 \<and>
   (heap s1 p = Some c \<longrightarrow>
      IP_SetMessageLength (Some p) len s1 =
        Some (min len IP_MAX_MESSAGE_LENGTH,
              s1\<lparr>heap := (heap s1)(p \<mapsto> c\<lparr>messageLength := min len IP_MAX_MESSAGE_LENGTH\<rparr>)\<rparr>)) \<and>
   (TSM_AcquireItem (globalConnectionsList a) connectionID = Some e \<and> baseConnection e = Some p \<and>
    heap (ip a) p = Some c \<longrightarrow>
      map_option fst (AsyncIP_SetMessageLength connectionID len a) = Some (min len IP_MAX_MESSAGE_LENGTH)) \<and>
   (run events (initial_state legacy platform) = Some s \<and> heap (ip s) q = Some d \<longrightarrow>
      messageLength d \<le> IP_MAX_MESSAGE_LENGTH)"
proof -
  have "run events (initial_state legacy platform) = Some s \<Longrightarrow> heap (ip s) q = Some d \<Longrightarrow>
        messageLength d \<le> IP_MAX_MESSAGE_LENGTH"
    using reachable_Inv [of events legacy platform s] ipinv_lookup [of "ip s" q d]
    by (simp add: Inv_def)
  then show ?thesis
    using SetMessageLength_min [of s1 p c len] SetMessageLength_min [of "ip a" p c len]
      AddConnection_default_length [of socketFD address transportProtocol networkRole s0]
    by (auto simp: AsyncIP_SetMessageLength_def IP_MAX_MESSAGE_LENGTH_def)
qed

text \<open>C8 on the example platform: a request of 600 is answered 512, a request of 0 is
  answered 0, and the bound after the request of 600 is within the maximum.\<close>
theorem C8_message_length_bound_witness:
  "map_option fst
     (IP_SetMessageLength (Some 1) 600
        (ip (the (run [OpenConnection 0x22 (Some ''10.0.0.1'') 50000] (initial_state False platform_ok)))))
     = Some 512 \<and>
   map_option fst
     (AsyncIP_SetMessageLength 0 0
        (the (run [OpenConnection 0x22 (Some ''10.0.0.1'') 50000] (initial_state False platform_ok))))
     = Some 0 \<and>
   messageLength
     (the (heap (ip (the (run [OpenConnection 0x22 (Some ''10.0.0.1'') 50000, SetMessageLength 0 600]
                            (initial_state False platform_ok)))) 1))
     \<le> IP_MAX_MESSAGE_LENGTH"
proof -
  define a where "a = the (run [OpenConnection 0x22 (Some ''10.0.0.1'') 50000] (initial_state False platform_ok))"
  define c where "c = the (heap (ip a) 1)"
  define e where "e = the (TSM_AcquireItem (globalConnectionsList a) 0)"
  define s where "s = the (run [OpenConnection 0x22 (Some ''10.0.0.1'') 50000, SetMessageLength 0 600]
                            (initial_state False platform_ok))"
  define d where "d = the (heap (ip s) 1)"
  have h1: "heap (ip a) 1 = Some c"
    by (simp add: c_def a_def example_defs run_defs)
  have h2: "TSM_AcquireItem (globalConnectionsList a) 0 = Some e \<and> baseConnection e = Some 1"
    by (simp add: e_def a_def example_defs run_defs)
  have h3: "run [OpenConnection 0x22 (Some ''10.0.0.1'') 50000, SetMessageLength 0 600]
              (initial_state False platform_ok) = Some s \<and> heap (ip s) 1 = Some d"
    by (simp add: s_def d_def example_defs run_defs)
  from C8_message_length_bound [where ?s1.0 = "ip a" and p = 1 and c = c and len = 600] h1
  have r1: "map_option fst (IP_SetMessageLength (Some 1) 600 (ip a)) = Some 512"
    by (simp add: IP_MAX_MESSAGE_LENGTH_def)
  from C8_message_length_bound [where a = a and connectionID = 0 and e = e and p = 1 and c = c and len = 0]
    h1 h2
  have r2: "map_option fst (AsyncIP_SetMessageLength 0 0 a) = Some 0"
    by simp
  from C8_message_length_bound
         [where events = "[OpenConnection 0x22 (Some ''10.0.0.1'') 50000, SetMessageLength 0 600]"
            and legacy = False and platform = platform_ok and s = s and q = 1 and d = d] h3
  have r3: "messageLength d \<le> IP_MAX_MESSAGE_LENGTH" by blast
  from r1 r2 r3 show ?thesis
    unfolding a_def s_def d_def by blast
qed






lemma WriteMessage_never_blocks:
  assumes "TSM_AcquireItem (globalConnectionsList s) connectionID = Some connection"
    and "queue_ok (writeQueue connection)"
  shows "\<exists>s'. AsyncIP_WriteMessage connectionID message s = Some (True, s') \<and>
          map_option (\<lambda>e. TSQ_GetItemsCount (writeQueue e))
            (TSM_AcquireItem (globalConnectionsList s') connectionID)
          = Some (min QUEUE_MAX_ITEMS (Suc (TSQ_GetItemsCount (writeQueue connection))))"
  using assms
  by (auto simp: AsyncIP_WriteMessage_def Let_def TSQ_Enqueue_def TSQ_GetItemsCount_def queue_ok_def
      TSM_Acquire_update fprintf_stderr_async_def QUEUE_MAX_ITEMS_def min_def)

lemma ReadToQueue_skips_full:
  "TSM_AcquireItem (globalConnectionsList s) connectionID = Some connection \<Longrightarrow>
   TSQ_GetItemsCount (readQueue connection) \<ge> QUEUE_MAX_ITEMS \<Longrightarrow>
   ReadToQueue connectionID s = Some s"
  by (simp add: ReadToQueue_def)

text \<open>
  Claim C2. In every state the library reaches, the read queue and the write queue of
  every registered connection have capacity \<^verbatim>\<open>QUEUE_MAX_ITEMS\<close> = 10 and hold at
  most 10 items; \<^verbatim>\<open>ReadToQueue\<close> leaves the state as it is when the read queue
  holds 10 items (it enqueues only into a queue with room, so its \<^verbatim>\<open>TSQUEUE_WAIT\<close>
  never blocks); and \<^verbatim>\<open>AsyncIP_WriteMessage\<close> always returns true, the write queue
  holding one item more afterwards, or 10 when it was full.
\<close>
theorem C2_queues_bounded:
  assumes "run events (initial_state legacy platform) = Some s"
    and "TSM_AcquireItem (globalConnectionsList s) connectionID = Some connection"
  shows "TSQ_GetItemsCount (readQueue connection) \<le> QUEUE_MAX_ITEMS \<and>
         TSQ_GetItemsCount (writeQueue connection) \<le> QUEUE_MAX_ITEMS \<and>
         QUEUE_MAX_ITEMS = 10 \<and>
         maxItems (readQueue connection) = QUEUE_MAX_ITEMS \<and>
         maxItems (writeQueue connection) = QUEUE_MAX_ITEMS \<and>
         (TSQ_GetItemsCount (readQueue connection) < QUEUE_MAX_ITEMS \<or>
          ReadToQueue connectionID s = Some s) \<and>
         (\<exists>s'. AsyncIP_WriteMessage connectionID message s = Some (True, s') \<and>
               map_option (\<lambda>e. TSQ_GetItemsCount (writeQueue e))
                 (TSM_AcquireItem (globalConnectionsList s') connectionID)
               = Some (min QUEUE_MAX_ITEMS (Suc (TSQ_GetItemsCount (writeQueue connection)))))"
proof -
  have "Inv s"
    using assms(1) by (rule reachable_Inv)
  then have q: "queue_ok (readQueue connection) \<and> queue_ok (writeQueue connection)"
    using assms(2) queues_ok_Acquire by (simp add: Inv_def)
  have skip: "TSQ_GetItemsCount (readQueue connection) < QUEUE_MAX_ITEMS \<or>
              ReadToQueue connectionID s = Some s"
    using ReadToQueue_skips_full [OF assms(2)] by (cases "TSQ_GetItemsCount (readQueue connection) < QUEUE_MAX_ITEMS") auto
  from q skip WriteMessage_never_blocks [OF assms(2), of message]
  show ?thesis
    by (simp add: queue_ok_def TSQ_GetItemsCount_def QUEUE_MAX_ITEMS_def)
qed

text \<open>C2 after \<open>full_queues_run\<close>: both queues hold 10 items, the reader skips the
  connection, and a twelfth write leaves 10 items in the write queue.\<close>
theorem C2_queues_bounded_witness:
  "TSQ_GetItemsCount
     (readQueue (the (TSM_AcquireItem
        (globalConnectionsList (the (run full_queues_run (initial_state False platform_ok)))) 0))) = 10 \<and>
   TSQ_GetItemsCount
     (writeQueue (the (TSM_AcquireItem
        (globalConnectionsList (the (run full_queues_run (initial_state False platform_ok)))) 0))) = 10 \<and>
   ReadToQueue 0 (the (run full_queues_run (initial_state False platform_ok)))
     = Some (the (run full_queues_run (initial_state False platform_ok))) \<and>
   (\<exists>s'. AsyncIP_WriteMessage 0 ''w11'' (the (run full_queues_run (initial_state False platform_ok)))
            = Some (True, s') \<and>
         map_option (\<lambda>e. TSQ_GetItemsCount (writeQueue e)) (TSM_AcquireItem (globalConnectionsList s') 0)
           = Some 10)"
proof -
  define s where "s = the (run full_queues_run (initial_state False platform_ok))"
  define c where "c = the (TSM_AcquireItem (globalConnectionsList s) 0)"
  have h1: "run full_queues_run (initial_state False platform_ok) = Some s"
    by (simp add: s_def example_defs run_defs)
  have h2: "TSM_AcquireItem (globalConnectionsList s) 0 = Some c"
    by (simp add: c_def s_def example_defs run_defs)
  have h3: "TSQ_GetItemsCount (readQueue c) = 10 \<and> TSQ_GetItemsCount (writeQueue c) = 10"
    by (simp add: c_def s_def example_defs run_defs)
  from C2_queues_bounded [OF h1 h2, of "''w11''"] h3
  show ?thesis
    unfolding s_def c_def by (simp add: QUEUE_MAX_ITEMS_def)
qed

lemma IP_OpenConnection_low_port:
  "port < 49152 \<Longrightarrow>
   IP_OpenConnection connectionType host port s = (None, fprintf_stderr ''invalid port number value: %u'' s)"
  by (simp add: IP_OpenConnection_def)

lemma AsyncIP_OpenConnection_fails:
  "fst (IP_OpenConnection connectionType host port (ip a)) = None \<Longrightarrow>
   map_option fst (AsyncIP_OpenConnection connectionType host port a) = Some IP_CONNECTION_INVALID_ID"
  by (cases "IP_OpenConnection connectionType host port (ip a)") (simp add: AsyncIP_OpenConnection_def)

lemma IP_OpenConnection_null_host_client:
  "\<not> IP_NETWORK_LEGACY s \<Longrightarrow> connectionType AND ROLE_MASK \<noteq> IP_SERVER \<Longrightarrow>
   fst (IP_OpenConnection connectionType None port s) = None"
  by (simp add: IP_OpenConnection_def LoadAddressInfo_def)

lemma LoadAddressInfo_null_host_server:
  "\<not> IP_NETWORK_LEGACY s \<Longrightarrow>
   LoadAddressInfo None port IP_SERVER s =
     (case getaddrinfo (os s) None port True of
        None \<Rightarrow> (None, fprintf_stderr ''getaddrinfo: error reading host info: %s'' s)
      | Some hostsInfoList \<Rightarrow> first_printable hostsInfoList s)"
  by (simp add: LoadAddressInfo_def)

lemma LoadAddressInfo_null_host_legacy:
  "IP_NETWORK_LEGACY s \<Longrightarrow>
   LoadAddressInfo None port networkRole s =
     (Some \<lparr>sa_family = AF_INET, sin_port = port, sin_addr = INADDR_ANY, sin6_addr = []\<rparr>, s)"
  by (simp add: LoadAddressInfo_def)

lemma server_types:
  "(IP_TCP OR IP_SERVER) AND ROLE_MASK = IP_SERVER"
  "(IP_UDP OR IP_SERVER) AND ROLE_MASK = IP_SERVER"
  "(IP_TCP OR IP_SERVER) AND TRANSPORT_MASK = IP_TCP"
  "(IP_UDP OR IP_SERVER) AND TRANSPORT_MASK = IP_UDP"
  "IP_UDP OR IP_SERVER \<noteq> IP_TCP OR IP_SERVER"
  by (simp_all add: IP_TCP_def IP_UDP_def IP_SERVER_def ROLE_MASK_def TRANSPORT_MASK_def)

lemma LoadAddressInfo_cooperates:
  "platform_cooperates s port \<Longrightarrow>
   \<exists>address. LoadAddressInfo None port IP_SERVER s = (Some address, s)"
  by (auto simp: platform_cooperates_def LoadAddressInfo_def GetAddressString_def
      split: option.splits list.splits)

lemma IP_OpenConnection_null_host_server:
  assumes "platform_cooperates s port" and "49152 \<le> port"
    and "connectionType = IP_TCP OR IP_SERVER \<or> connectionType = IP_UDP OR IP_SERVER"
  shows "fst (IP_OpenConnection connectionType None port s) \<noteq> None"
proof -
  obtain address where l: "LoadAddressInfo None port IP_SERVER s = (Some address, s)"
    using LoadAddressInfo_cooperates [OF assms(1)] by blast
  have ok: "next_socket (os s) \<noteq> INVALID_SOCKET" "\<And>call. \<not> fails (os s) call (next_socket (os s))"
    using assms(1) by (simp_all add: platform_cooperates_def)
  have np: "\<not> port < 49152"
    using assms(2) by (simp only: linorder_not_less)
  from assms(3) show ?thesis
  proof
    assume t: "connectionType = IP_TCP OR IP_SERVER"
    show ?thesis
      using np l ok
      by (simp add: IP_OpenConnection_def t server_types CreateSocket_def socket_call_def Let_def
          SetSocketConfig_def os_call_def BindTCPServerSocket_def BindServerSocket_def
          split: prod.splits)
  next
    assume t: "connectionType = IP_UDP OR IP_SERVER"
    show ?thesis
      using np l ok
      by (simp add: IP_OpenConnection_def t server_types CreateSocket_def socket_call_def Let_def
          SetSocketConfig_def os_call_def BindUDPServerSocket_def BindServerSocket_def
          split: prod.splits)
  qed
qed

text \<open>
  What \<^verbatim>\<open>IP_OpenConnection\<close> checks. For every type byte, host and port, a port below 49152 makes
  \<^verbatim>\<open>IP_OpenConnection\<close> return \<^verbatim>\<open>NULL\<close> and the facade
  \<^verbatim>\<open>IP_CONNECTION_INVALID_ID\<close>. In the default (modern) build a \<^verbatim>\<open>NULL\<close> host
  fails in the same way for every role other than \<^verbatim>\<open>IP_SERVER\<close>, and for a server
  it is resolved with the passive flag (the wildcard address). In the legacy build a
  \<^verbatim>\<open>NULL\<close> host is taken as \<^verbatim>\<open>INADDR_ANY\<close> for every role. In both builds a
  TCP or UDP server with a \<^verbatim>\<open>NULL\<close> host and a port from 49152 on is opened when
  the platform cooperates.
\<close>
lemma OpenConnection_validation:
  "(port < 49152 \<longrightarrow>
      IP_OpenConnection connectionType host port s =
        (None, fprintf_stderr ''invalid port number value: %u'' s) \<and>
      map_option fst (AsyncIP_OpenConnection connectionType host port a) = Some IP_CONNECTION_INVALID_ID) \<and>
   (\<not> IP_NETWORK_LEGACY (ip a) \<and> connectionType AND ROLE_MASK \<noteq> IP_SERVER \<longrightarrow>
      fst (IP_OpenConnection connectionType None port (ip a)) = None \<and>
      map_option fst (AsyncIP_OpenConnection connectionType None port a) = Some IP_CONNECTION_INVALID_ID) \<and>
   (\<not> IP_NETWORK_LEGACY s \<longrightarrow>
      LoadAddressInfo None port IP_SERVER s =
        (case getaddrinfo (os s) None port True of
           None \<Rightarrow> (None, fprintf_stderr ''getaddrinfo: error reading host info: %s'' s)
         | Some hostsInfoList \<Rightarrow> first_printable hostsInfoList s)) \<and>
   (IP_NETWORK_LEGACY s \<longrightarrow>
      LoadAddressInfo None port networkRole s =
        (Some \<lparr>sa_family = AF_INET, sin_port = port, sin_addr = INADDR_ANY, sin6_addr = []\<rparr>, s)) \<and>
   (platform_cooperates s port \<and> 49152 \<le> port \<and>
    (connectionType = IP_TCP OR IP_SERVER \<or> connectionType = IP_UDP OR IP_SERVER) \<longrightarrow>
      fst (IP_OpenConnection connectionType None port s) \<noteq> None)"
  using IP_OpenConnection_low_port [of port connectionType host s]
    IP_OpenConnection_low_port [of port connectionType host "ip a"]
    AsyncIP_OpenConnection_fails [of connectionType host port a]
    AsyncIP_OpenConnection_fails [of connectionType None port a]
    IP_OpenConnection_null_host_client [of "ip a" connectionType port]
    LoadAddressInfo_null_host_server [of s port]
    LoadAddressInfo_null_host_legacy [of s port networkRole]
    IP_OpenConnection_null_host_server [of s port connectionType]
  by auto

text \<open>The same on the example platform: port 8080, a UDP client with a \<^verbatim>\<open>NULL\<close> host in
  the modern build, the address a server and (legacy build) a client get for a
  \<^verbatim>\<open>NULL\<close> host, and a UDP server opened with a \<^verbatim>\<open>NULL\<close> host.\<close>
lemma OpenConnection_validation_example:
  "map_option fst (AsyncIP_OpenConnection (IP_TCP OR IP_SERVER) None 8080 (initial_state False platform_ok))
     = Some IP_CONNECTION_INVALID_ID \<and>
   map_option fst (AsyncIP_OpenConnection (IP_UDP OR IP_CLIENT) None 50000 (initial_state False platform_ok))
     = Some IP_CONNECTION_INVALID_ID \<and>
   fst (LoadAddressInfo None 50000 IP_SERVER (ip (initial_state False platform_ok)))
     = Some \<lparr>sa_family = AF_INET6, sin_port = 50000, sin_addr = 0, sin6_addr = replicate 16 0\<rparr> \<and>
   fst (LoadAddressInfo None 50000 IP_CLIENT (ip (initial_state True platform_ok)))
     = Some \<lparr>sa_family = AF_INET, sin_port = 50000, sin_addr = INADDR_ANY, sin6_addr = []\<rparr> \<and>
   fst (IP_OpenConnection (IP_UDP OR IP_SERVER) None 50000 (ip (initial_state False platform_ok))) \<noteq> None"
proof -
  define a where "a = initial_state False platform_ok"
  define b where "b = initial_state True platform_ok"
  have h1: "(8080 :: 16 word) < 49152" by simp
  have h2: "\<not> IP_NETWORK_LEGACY (ip a) \<and> (IP_UDP OR IP_CLIENT) AND ROLE_MASK \<noteq> IP_SERVER"
    by (simp add: a_def example_defs IP_UDP_def IP_CLIENT_def IP_SERVER_def ROLE_MASK_def)
  have h3: "IP_NETWORK_LEGACY (ip b)"
    by (simp add: b_def example_defs)
  have h4: "platform_cooperates (ip a) 50000 \<and> (49152 :: 16 word) \<le> 50000"
    by (simp add: a_def example_defs platform_cooperates_def INVALID_SOCKET_def)
  from OpenConnection_validation [where port = 8080 and connectionType = "IP_TCP OR IP_SERVER"
      and host = None and a = a] h1
  have r1: "map_option fst (AsyncIP_OpenConnection (IP_TCP OR IP_SERVER) None 8080 a)
              = Some IP_CONNECTION_INVALID_ID"
    by blast
  from OpenConnection_validation [where port = 50000 and connectionType = "IP_UDP OR IP_CLIENT" and a = a] h2
  have r2: "map_option fst (AsyncIP_OpenConnection (IP_UDP OR IP_CLIENT) None 50000 a)
              = Some IP_CONNECTION_INVALID_ID"
    by blast
  from OpenConnection_validation [where port = 50000 and s = "ip a"] h2
  have r3: "fst (LoadAddressInfo None 50000 IP_SERVER (ip a))
              = Some \<lparr>sa_family = AF_INET6, sin_port = 50000, sin_addr = 0, sin6_addr = replicate 16 0\<rparr>"
    by (simp add: a_def example_defs GetAddressString_def)
  from OpenConnection_validation [where port = 50000 and s = "ip b" and networkRole = IP_CLIENT] h3
  have r4: "fst (LoadAddressInfo None 50000 IP_CLIENT (ip b))
              = Some \<lparr>sa_family = AF_INET, sin_port = 50000, sin_addr = INADDR_ANY, sin6_addr = []\<rparr>"
    by simp
  from OpenConnection_validation [where port = 50000 and s = "ip a" and connectionType = "IP_UDP OR IP_SERVER"] h4
  have r5: "fst (IP_OpenConnection (IP_UDP OR IP_SERVER) None 50000 (ip a)) \<noteq> None"
    by blast
  from r1 r2 r3 r4 r5 show ?thesis
    unfolding a_def b_def by blast
qed

section \<open>Broadcast to the clients of a server\<close>

lemma loop_result_zero_aux:
  assumes "send_calls call m s = Some y"
  shows "(case call of Call_IP_SendMessage p \<Rightarrow> True | Loop_SendMessageAll p i n \<Rightarrow> fst y = 0)"
proof (rule send_calls.raw_induct
    [where P = "\<lambda>call m s y. (case call of Call_IP_SendMessage p \<Rightarrow> True
                                  | Loop_SendMessageAll p i n \<Rightarrow> fst y = 0)", OF _ assms], goal_cases)
  case (1 f call message s y)
  show ?case
  proof (cases call)
    case (Call_IP_SendMessage p)
    then show ?thesis by simp
  next
    case (Loop_SendMessageAll p i n)
    have IH: "\<And>j s y. f (Loop_SendMessageAll p j n) message s = Some y \<Longrightarrow> fst y = 0"
      using 1(1) by force
    from 1(2) show ?thesis
      unfolding Loop_SendMessageAll
      by (auto split: option.splits if_splits simp: Option.bind_eq_Some_conv dest: IH)
  qed
qed

lemma loop_result_zero:
  "send_calls (Loop_SendMessageAll p i n) m s = Some (r, s') \<Longrightarrow> r = 0"
  using loop_result_zero_aux [of "Loop_SendMessageAll p i n" m s "(r, s')"] by simp

lemma SendMessageAll_result_zero: "SendMessageAll connection message s = Some (r, s') \<Longrightarrow> r = 0"
  by (auto simp: SendMessageAll_def split: option.splits dest: loop_result_zero)

lemma IP_SendMessage_server_not_fatal:
  assumes "heap s connection = Some c" and "ref_SendMessage c = FN_SendMessageAll"
    and "IP_SendMessage connection message s = Some (r, s')"
  shows "r = 0"
  using assms(3) unfolding IP_SendMessage_def
  by (subst (asm) send_calls.simps) (auto simp: assms(1,2) split: if_splits dest: loop_result_zero)

lemma WriteFromQueue_keeps_server:
  assumes "TSM_AcquireItem (globalConnectionsList a) connectionID = Some e"
    and "baseConnection e = Some base" and "heap (ip a) base = Some c"
    and "ref_SendMessage c = FN_SendMessageAll"
    and "WriteFromQueue connectionID a = Some a'"
  shows "TSM_GetItem (globalConnectionsList a') connectionID"
  using assms(5) assms(1,2)
  by (auto simp: WriteFromQueue_def Let_def TSM_GetItem_def TSM_Acquire_update
        Option.bind_eq_Some_conv
      split: if_splits
      dest!: IP_SendMessage_server_not_fatal [OF assms(3,4)])

lemma client_send_returns:
  assumes "heap s p = Some cc" and "ref_SendMessage cc \<noteq> FN_SendMessageAll"
  shows "\<exists>r s'. send_calls (Call_IP_SendMessage p) m s = Some (r, s') \<and> heap s' = heap s"
  using assms
  by (subst send_calls.simps)
    (cases "ref_SendMessage cc";
      simp add: SendTCPMessage_def SendUDPMessage_def fprintf_stderr_def)

lemma loop_returns:
  assumes "heap s connection = Some c"
    and "\<forall>i. clientIndex \<le> i \<and> i < clientsNumber \<longrightarrow>
           i < length (clientsList c) \<and>
           (\<exists>p cc. clientsList c ! i = Some p \<and> heap s p = Some cc \<and>
              ref_SendMessage cc \<noteq> FN_SendMessageAll)"
  shows "\<exists>s'. send_calls (Loop_SendMessageAll connection clientIndex clientsNumber) m s = Some (0, s') \<and>
              heap s' = heap s"
  using assms
proof (induction "clientsNumber - clientIndex" arbitrary: clientIndex s)
  case 0
  then show ?case
    by (subst send_calls.simps) simp
next
  case (Suc k)
  from Suc.hyps(2) have lt: "clientIndex < clientsNumber" by simp
  with Suc.prems(2) obtain p cc where
    slot: "clientIndex < length (clientsList c)" "clientsList c ! clientIndex = Some p"
      "heap s p = Some cc" "ref_SendMessage cc \<noteq> FN_SendMessageAll"
    by (metis le_refl)
  obtain r s1 where one: "send_calls (Call_IP_SendMessage p) m s = Some (r, s1)" "heap s1 = heap s"
    using client_send_returns [OF slot(3,4)] by blast
  have "\<exists>s'. send_calls (Loop_SendMessageAll connection (Suc clientIndex) clientsNumber) m s1 = Some (0, s') \<and>
             heap s' = heap s1"
  proof (rule Suc.hyps(1))
    show "k = clientsNumber - Suc clientIndex" using Suc.hyps(2) by simp
    show "heap s1 connection = Some c" using Suc.prems(1) one(2) by simp
    show "\<forall>i. Suc clientIndex \<le> i \<and> i < clientsNumber \<longrightarrow>
           i < length (clientsList c) \<and>
           (\<exists>p cc. clientsList c ! i = Some p \<and> heap s1 p = Some cc \<and>
              ref_SendMessage cc \<noteq> FN_SendMessageAll)"
      using Suc.prems(2) one(2) by (simp add: Suc_le_eq)
  qed
  then obtain s' where
    rest: "send_calls (Loop_SendMessageAll connection (Suc clientIndex) clientsNumber) m s1 = Some (0, s')"
      "heap s' = heap s1"
    by blast
  show ?case
    by (subst send_calls.simps) (simp add: lt Suc.prems(1) slot one rest)
qed

lemma SendMessageAll_returns:
  assumes "heap s connection = Some c" and "clients_listed s c"
  shows "\<exists>s'. SendMessageAll connection message s = Some (0, s')"
proof -
  have "\<exists>s'. send_calls (Loop_SendMessageAll connection 0 (ref_clientsCount c)) message s = Some (0, s') \<and>
             heap s' = heap s"
    using assms(1)
  proof (rule loop_returns)
    show "\<forall>i. 0 \<le> i \<and> i < ref_clientsCount c \<longrightarrow>
           i < length (clientsList c) \<and>
           (\<exists>p cc. clientsList c ! i = Some p \<and> heap s p = Some cc \<and>
              ref_SendMessage cc \<noteq> FN_SendMessageAll)"
      using assms(2) by (simp add: clients_listed_def)
  qed
  then show ?thesis
    by (auto simp: SendMessageAll_def assms(1))
qed

lemma AddConnection_server_method:
  "map_option ref_SendMessage
     (heap (snd (AddConnection socketFD address transportProtocol IP_SERVER s))
        (fst (AddConnection socketFD address transportProtocol IP_SERVER s)))
   = Some (if transportProtocol = IP_UDP \<and> IS_IP_MULTICAST_ADDRESS (IP_NETWORK_LEGACY s) address
           then FN_SendUDPMessage else FN_SendMessageAll)"
  by (simp add: AddConnection_def Let_def)

text \<open>
  Claim C10, amended. \<^verbatim>\<open>SendMessageAll\<close> returns 0 whenever it returns, also when a
  send to one of the clients fails, and it returns when the first
  \<^verbatim>\<open>*ref_clientsCount\<close> slots of the client list hold allocated clients. So
  \<^verbatim>\<open>IP_SendMessage\<close> never returns -1 on a server whose send method is
  \<^verbatim>\<open>SendMessageAll\<close>, and the writer leaves such a server in the connection map.
  \<^verbatim>\<open>AddConnection\<close> gives that method to every server but a UDP server on a multicast
  address, which sends with \<^verbatim>\<open>SendUDPMessage\<close>.
\<close>

theorem C10_SendMessageAll_never_fatal:
  "(SendMessageAll connection message s = Some (r, s') \<longrightarrow> r = 0) \<and>
   (heap s connection = Some c \<and> clients_listed s c \<longrightarrow>
      (\<exists>s'. SendMessageAll connection message s = Some (0, s'))) \<and>
   (heap s connection = Some c \<and> ref_SendMessage c = FN_SendMessageAll \<and>
    IP_SendMessage connection message s = Some (r, s') \<longrightarrow> r = 0) \<and>
   (TSM_AcquireItem (globalConnectionsList a) connectionID = Some e \<and> baseConnection e = Some connection \<and>
    heap (ip a) connection = Some c \<and> ref_SendMessage c = FN_SendMessageAll \<and>
    WriteFromQueue connectionID a = Some a' \<longrightarrow>
      TSM_GetItem (globalConnectionsList a') connectionID) \<and>
   map_option ref_SendMessage
     (heap (snd (AddConnection socketFD address transportProtocol IP_SERVER s0))
        (fst (AddConnection socketFD address transportProtocol IP_SERVER s0)))
     = Some (if transportProtocol = IP_UDP \<and> IS_IP_MULTICAST_ADDRESS (IP_NETWORK_LEGACY s0) address
             then FN_SendUDPMessage else FN_SendMessageAll)"
  using SendMessageAll_result_zero [of connection message s r s']
    SendMessageAll_returns [of s connection c message]
    IP_SendMessage_server_not_fatal [of s connection c message r s']
    WriteFromQueue_keeps_server [of a connectionID e connection c a']
    AddConnection_server_method [of socketFD address transportProtocol s0]
  by blast


lemma IP_SendMessage_server_eq:
  assumes "heap s connection = Some c" and "ref_SendMessage c = FN_SendMessageAll"
    and "strlen message + 1 \<le> messageLength c"
  shows "IP_SendMessage connection message s = SendMessageAll connection message s"
  unfolding IP_SendMessage_def SendMessageAll_def
  using assms by (subst send_calls.simps) simp

text \<open>The amended claim on a TCP server with one accepted client, on a platform where
  every \<^verbatim>\<open>send\<close> fails: the broadcast returns 0 and the writer keeps the server.\<close>

theorem C10_SendMessageAll_never_fatal_witness:
  "fails (os (ip (the (run broadcast_run (initial_state False platform_ok))))) SYS_send 4 \<and>
   (\<exists>s'. SendMessageAll 1 ''hello'' (ip (the (run broadcast_run (initial_state False platform_ok))))
            = Some (0, s')) \<and>
   map_option fst (IP_SendMessage 1 ''hello'' (ip (the (run broadcast_run (initial_state False platform_ok)))))
     = Some 0 \<and>
   map_option (\<lambda>a'. TSM_GetItem (globalConnectionsList a') 0)
     (WriteFromQueue 0 (the (run broadcast_run (initial_state False platform_ok)))) = Some True"
proof -
  define a where "a = the (run broadcast_run (initial_state False platform_ok))"
  define c where "c = the (heap (ip a) 1)"
  define e where "e = the (TSM_AcquireItem (globalConnectionsList a) 0)"
  have h1: "heap (ip a) 1 = Some c \<and> ref_SendMessage c = FN_SendMessageAll \<and>
            clientsList c = [Some 2] \<and> ref_clientsCount c = 1 \<and> messageLength c = 512 \<and>
            map_option (\<lambda>cc. (socket cc, ref_SendMessage cc)) (heap (ip a) 2) = Some (4, FN_SendTCPMessage) \<and>
            fails (os (ip a)) SYS_send 4"
    by (simp add: c_def a_def broadcast_run_def example_defs run_defs)
  have h2: "TSM_AcquireItem (globalConnectionsList a) 0 = Some e \<and> baseConnection e = Some 1"
    by (simp add: e_def a_def broadcast_run_def example_defs run_defs)
  have h3: "clients_listed (ip a) c"
    using h1 by (auto simp: clients_listed_def)
  note inst = C10_SendMessageAll_never_fatal
      [where s = "ip a" and connection = 1 and c = c and message = "''hello''" and a = a
         and connectionID = 0 and e = e]
  from inst h1 h3 have r1: "\<exists>s'. SendMessageAll 1 ''hello'' (ip a) = Some (0, s')"
    by blast
  have "strlen ''hello'' + 1 \<le> messageLength c"
    using h1 by (simp add: strlen_def)
  with h1 have "IP_SendMessage 1 ''hello'' (ip a) = SendMessageAll 1 ''hello'' (ip a)"
    by (simp add: IP_SendMessage_server_eq)
  with r1 have ret: "IP_SendMessage 1 ''hello'' (ip a) \<noteq> None"
    by auto
  then obtain r s' where sm: "IP_SendMessage 1 ''hello'' (ip a) = Some (r, s')"
    by (cases "IP_SendMessage 1 ''hello'' (ip a)") auto
  with inst [of r s'] h1 have r2: "map_option fst (IP_SendMessage 1 ''hello'' (ip a)) = Some 0"
    by simp
  have "WriteFromQueue 0 a \<noteq> None"
    using h1 h2 sm
    by (simp add: WriteFromQueue_def TSQ_GetItemsCount_def TSQ_Dequeue_def e_def a_def
        broadcast_run_def example_defs run_defs split: list.splits)
  then obtain a' where w: "WriteFromQueue 0 a = Some a'"
    by (cases "WriteFromQueue 0 a") auto
  with inst [where a' = a'] h1 h2
  have r3: "map_option (\<lambda>a'. TSM_GetItem (globalConnectionsList a') 0) (WriteFromQueue 0 a) = Some True"
    by simp
  from h1 r1 r2 r3 show ?thesis
    unfolding a_def by blast
qed

text \<open>
  The loop of \<^verbatim>\<open>SendMessageAll\<close> at a \<^verbatim>\<open>NULL\<close> slot below the client count does
  not advance, so the call does not return. \<^verbatim>\<open>RemoveClient\<close> leaves such a slot
  when a client other than the last one of the list is closed: the next pass of the
  writer over a message queued for the server does not end.
\<close>

lemma loop_at_hole_aux:
  assumes "send_calls call m s = Some y"
    and "heap s0 connection = Some c" and "clientIndex < clientsNumber"
    and "clientIndex < length (clientsList c)" and "clientsList c ! clientIndex = None"
  shows "\<not> (call = Loop_SendMessageAll connection clientIndex clientsNumber \<and> s = s0)"
proof (rule send_calls.raw_induct
    [where P = "\<lambda>call m s y. \<not> (call = Loop_SendMessageAll connection clientIndex clientsNumber \<and> s = s0)",
      OF _ assms(1)], goal_cases)
  case (1 f call message s y)
  show ?case
  proof
    assume a: "call = Loop_SendMessageAll connection clientIndex clientsNumber \<and> s = s0"
    with 1(2) assms(2-5)
    have "f (Loop_SendMessageAll connection clientIndex clientsNumber) message s0 = Some y"
      by simp
    from 1(1) [OF this] show False by simp
  qed
qed

lemma SendMessageAll_hole_never_returns:
  assumes "heap s connection = Some c" and "clientIndex < clientsNumber"
    and "clientIndex < length (clientsList c)" and "clientsList c ! clientIndex = None"
  shows "send_calls (Loop_SendMessageAll connection clientIndex clientsNumber) m s = None"
proof (cases "send_calls (Loop_SendMessageAll connection clientIndex clientsNumber) m s")
  case None
  then show ?thesis .
next
  case (Some y)
  from loop_at_hole_aux [OF Some assms] show ?thesis by simp
qed

lemma run_append: "run (es @ es') s = Option.bind (run es s) (run es')"
  by (induction es arbitrary: s) (auto simp: Option.bind_eq_None_conv split: Option.bind_split)

lemma broadcast_after_close_never_returns:
  "run hole_run (initial_state False platform_ok) \<noteq> None \<and>
   run (hole_run @ [WriterIteration]) (initial_state False platform_ok) = None"
proof -
  define a where "a = the (run hole_run (initial_state False platform_ok))"
  define c where "c = the (heap (ip a) 1)"
  define e where "e = the (TSM_AcquireItem (globalConnectionsList a) 0)"
  have r: "run hole_run (initial_state False platform_ok) = Some a"
    by (simp add: a_def hole_run_def example_defs run_defs)
  have h1: "heap (ip a) 1 = Some c \<and> ref_SendMessage c = FN_SendMessageAll \<and>
            clientsList c = [None, Some 3] \<and> ref_clientsCount c = 1 \<and> messageLength c = 512"
    by (simp add: c_def a_def hole_run_def example_defs run_defs)
  have h2: "TSM_AcquireItem (globalConnectionsList a) 0 = Some e \<and> baseConnection e = Some 1 \<and>
            queued (writeQueue e) = [''hello''] \<and> TSM_keys (globalConnectionsList a) = [0, 2] \<and>
            globalWriteThread a = THREAD_RUNNING \<and> isNetworkRunning a"
    by (simp add: e_def a_def hole_run_def example_defs run_defs)
  have "send_calls (Loop_SendMessageAll 1 0 1) ''hello'' (ip a) = None"
    using h1 by (intro SendMessageAll_hole_never_returns [where c = c]) simp_all
  with h1 have "IP_SendMessage 1 ''hello'' (ip a) = None"
    unfolding IP_SendMessage_def by (subst send_calls.simps) (simp add: strlen_def)
  with h2 have "WriteFromQueue 0 a = None"
    by (simp add: WriteFromQueue_def TSQ_GetItemsCount_def TSQ_Dequeue_def)
  with h2 have "step WriterIteration a = None"
    by (simp add: AsyncWriteQueues_body_def TSM_RunForAllKeys_def)
  with r show ?thesis
    by (simp add: run_append)
qed

end
